theory Spec2Isabelle
  imports Main "HOL-Library.Word"
begin

unbundle bit_operations_syntax

section \<open>The C library functions the assembler calls\<close>

text \<open>
  Strings are C strings without the terminating NUL: a \<open>char list\<close>.  A source text
  holds no NUL character (the C code would end the line there); a statement about every
  source text says so.  \<open>malloc\<close> is taken to succeed, so the
  "memory error" returns of the source (the code 2 of the stages, the code 0 or -2 of the
  helpers) are not branches of the model.
\<close>

definition isspace :: "char \<Rightarrow> bool" where
  "isspace c = (c \<in> set [CHR '' '', CHR 0x09, CHR 0x0A, CHR 0x0B, CHR 0x0C, CHR 0x0D])"

definition isdigit :: "char \<Rightarrow> bool" where
  "isdigit c = (c \<in> set ''0123456789'')"

definition isalpha :: "char \<Rightarrow> bool" where
  "isalpha c = (c \<in> set ''abcdefghijklmnopqrstuvwxyzABCDEFGHIJKLMNOPQRSTUVWXYZ'')"

text \<open>
  \<open>atoi\<close>: leading white space, an optional sign, then the decimal digits.  In the C
  library \<open>atoi(s)\<close> is \<open>(int) strtol(s, NULL, 10)\<close>: \<open>strtol\<close> returns a
  \<open>long\<close> of 64 bits and stops at \<open>LONG_MAX\<close> or \<open>LONG_MIN\<close> when the digits say
  more, and the conversion to the \<open>int\<close> of 32 bits keeps the low 32 bits, read in two's
  complement.  So \<open>atoi\<close> of \<open>2147483648\<close> is -2147483648 and \<open>atoi\<close> of
  \<open>4294967301\<close> is 5.
\<close>

fun atoi_digits :: "int \<Rightarrow> string \<Rightarrow> int" where
  "atoi_digits acc [] = acc"
| "atoi_digits acc (c # cs) =
     (if isdigit c then atoi_digits (acc * 10 + (int (of_char c) - 48)) cs else acc)"

definition LONG_MAX :: int where
  "LONG_MAX = 9223372036854775807"

definition strtol :: "string \<Rightarrow> int" where
  "strtol s =
     (let v = (case dropWhile isspace s of
                 [] \<Rightarrow> 0
               | c # cs \<Rightarrow>
                   if c = CHR ''-'' then - atoi_digits 0 cs
                   else if c = CHR ''+'' then atoi_digits 0 cs
                   else atoi_digits 0 (c # cs))
      in if v > LONG_MAX then LONG_MAX
         else if v < - LONG_MAX - 1 then - LONG_MAX - 1
         else v)"

definition atoi :: "string \<Rightarrow> int" where
  "atoi s = (strtol s + 2147483648) mod 4294967296 - 2147483648"

text \<open>
  \<open>fgets(line, n, fp)\<close> on the rest of the file: at most \<open>n - 1\<close> characters,
  up to and including the first newline; NULL at the end of the file.  The result is the
  line read and what is left of the file.
\<close>

fun fgets_chars :: "nat \<Rightarrow> string \<Rightarrow> string \<times> string" where
  "fgets_chars 0 s = ([], s)"
| "fgets_chars (Suc n) [] = ([], [])"
| "fgets_chars (Suc n) (c # s) =
     (if c = CHR 0x0A then ([c], s)
      else (case fgets_chars n s of (l, r) \<Rightarrow> (c # l, r)))"

definition fgets :: "nat \<Rightarrow> string \<Rightarrow> (string \<times> string) option" where
  "fgets n s = (if s = [] then None else Some (fgets_chars (n - 1) s))"

lemma fgets_chars_shorter:
  "0 < n \<Longrightarrow> s \<noteq> [] \<Longrightarrow> length (snd (fgets_chars n s)) < length s"
proof (induction n s rule: fgets_chars.induct)
  case (1 s)
  then show ?case by simp
next
  case (2 n)
  then show ?case by simp
next
  case (3 n c s)
  show ?case
  proof (cases "c = CHR 0x0A")
    case True
    then show ?thesis by simp
  next
    case False
    have "length (snd (fgets_chars n s)) \<le> length s"
    proof (cases "0 < n \<and> s \<noteq> []")
      case True
      with 3 False show ?thesis by (simp add: less_imp_le)
    next
      case False
      then show ?thesis by (cases n) auto
    qed
    with False show ?thesis by (simp add: split_def)
  qed
qed

section \<open>Words of a line (macros\_table.c, first\_stage\_func.c, second\_stage\_func.c)\<close>

definition skipFirstWord :: "string \<Rightarrow> string" where
  "skipFirstWord line =
     dropWhile isspace (dropWhile (\<lambda>c. \<not> isspace c) (dropWhile isspace line))"

definition skip_word :: "string \<Rightarrow> string" where
  "skip_word line = dropWhile isspace (dropWhile (\<lambda>c. \<not> isspace c) line)"

text \<open>
  \<open>get_first_word\<close> copies the first word into a static buffer of 81 bytes and returns
  NULL when the word does not fit.  The stages read their lines with \<open>fgets\<close> into 81
  bytes, so there a word has at most 80 characters and the result is never NULL; the
  callers that use the result unchecked get \<open>first_word_of\<close>, the word itself.
\<close>

definition first_word_of :: "string \<Rightarrow> string" where
  "first_word_of line = takeWhile (\<lambda>c. \<not> isspace c) (dropWhile isspace line)"

definition get_first_word :: "string \<Rightarrow> string option" where
  "get_first_word line =
     (if 81 \<le> length (first_word_of line) then None else Some (first_word_of line))"

lemma skipFirstWord_shorter: "line \<noteq> [] \<Longrightarrow> length (skipFirstWord line) < length line"
proof (cases line)
  case Nil
  assume "line \<noteq> []"
  with Nil show ?thesis by simp
next
  case (Cons c cs)
  have a: "length (dropWhile isspace (dropWhile (\<lambda>c. \<not> isspace c) (dropWhile isspace cs)))
             \<le> length cs"
    by (meson length_dropWhile_le le_trans)
  have b: "length (dropWhile isspace (dropWhile (\<lambda>c. \<not> isspace c) cs)) \<le> length cs"
    by (meson length_dropWhile_le le_trans)
  show ?thesis
  proof (cases "isspace c")
    case True
    with Cons a show ?thesis by (simp add: skipFirstWord_def)
  next
    case False
    with Cons b show ?thesis by (simp add: skipFirstWord_def)
  qed
qed

text \<open>
  \<open>findNumOfWords\<close>: the white space before the first word is skipped, then every
  round of the loop counts a word and calls \<open>skipFirstWord\<close>, which also skips the
  white space after it.  At the head of the loop the line therefore never starts with
  white space, and the test \<open>!isspace(*line)\<close> inside the loop always holds.
\<close>

function countWords :: "string \<Rightarrow> int" where
  "countWords line =
     (if line = [] \<or> hd line = CHR 0x0A then 0 else 1 + countWords (skipFirstWord line))"
  by pat_completeness auto
termination
  by (relation "measure length") (auto simp: skipFirstWord_shorter)

declare countWords.simps [simp del]

definition findNumOfWords :: "string \<Rightarrow> int" where
  "findNumOfWords line = countWords (dropWhile isspace line)"

text \<open>
  \<open>get_second_word\<close> returns the empty string when the line has fewer than two words
  (its buffer of 80 bytes holds every second word of a line of at most 81 characters).
  \<open>get_third_word\<close> and \<open>get_fourth_word\<close> return the literal \<open>""\<close> when the word
  is missing, and \<open>check4OperandEntry\<close> compares the pointer with \<open>""\<close>: the model
  returns \<open>None\<close> for the literal and \<open>Some\<close> for the buffer.
\<close>

definition get_second_word :: "string \<Rightarrow> string" where
  "get_second_word line =
     (if findNumOfWords line < 2 then []
      else takeWhile (\<lambda>c. \<not> isspace c) (skipFirstWord line))"

definition get_third_word :: "string \<Rightarrow> string option" where
  "get_third_word line =
     (if findNumOfWords line < 3 then None
      else Some (takeWhile (\<lambda>c. \<not> isspace c) (skipFirstWord (skipFirstWord line))))"

definition get_fourth_word :: "string \<Rightarrow> string option" where
  "get_fourth_word line =
     (if findNumOfWords line < 4 then None
      else Some (takeWhile (\<lambda>c. \<not> isspace c)
                  (skipFirstWord (skipFirstWord (skipFirstWord line)))))"

text \<open>The string a caller reads through the pointer.\<close>

definition word_text :: "string option \<Rightarrow> string" where
  "word_text w = (case w of None \<Rightarrow> [] | Some t \<Rightarrow> t)"

section \<open>The macro table (macros\_table.c)\<close>

record m_item =
  macro_name :: string
  macro_content :: string

fun isMacro :: "m_item list \<Rightarrow> string \<Rightarrow> bool" where
  "isMacro [] word = False"
| "isMacro (t # ts) word = (if macro_name t = word then True else isMacro ts word)"

text \<open>\<open>getMacro\<close> has no return statement for a name that is not in the table: \<open>None\<close>.\<close>

fun getMacro :: "m_item list \<Rightarrow> string \<Rightarrow> string option" where
  "getMacro [] name = None"
| "getMacro (t # ts) name = (if macro_name t = name then Some (macro_content t) else getMacro ts name)"

definition addMacro :: "m_item list \<Rightarrow> string \<Rightarrow> m_item list" where
  "addMacro hptr name = hptr @ [\<lparr>macro_name = name, macro_content = []\<rparr>]"

text \<open>\<open>addMacroContent\<close>: the line is appended to the first macro of that name; 0 when there is none.\<close>

fun addMacroContent :: "m_item list \<Rightarrow> string \<Rightarrow> string \<Rightarrow> m_item list option" where
  "addMacroContent [] line name = None"
| "addMacroContent (t # ts) line name =
     (if macro_name t = name then Some (t\<lparr>macro_content := macro_content t @ line\<rparr> # ts)
      else (case addMacroContent ts line name of None \<Rightarrow> None | Some ts' \<Rightarrow> Some (t # ts')))"

section \<open>The label table (assembler.h, first\_stage\_func.c)\<close>

text \<open>
  \<open>struct Lnode\<close>: the fields \<open>label_name\<close>, \<open>value\<close> and \<open>type\<close>; the list
  \<open>Labelhptr\<close> is the list of its nodes in insertion order (\<open>addLabel\<close> and
  \<open>loadLabelExtern\<close> append at the end).
\<close>

record l_item =
  label_name :: string
  value' :: int
  type' :: string

text \<open>\<open>isAlreadyLabel\<close>: 1 when a node of that name is found.\<close>

fun isAlreadyLabel :: "l_item list \<Rightarrow> string \<Rightarrow> bool" where
  "isAlreadyLabel [] word = False"
| "isAlreadyLabel (t # ts) word = (if label_name t = word then True else isAlreadyLabel ts word)"

text \<open>\<open>getLabelStatus\<close>: the type of the first node of that name, NULL when there is none.\<close>

fun getLabelStatus :: "l_item list \<Rightarrow> string \<Rightarrow> string option" where
  "getLabelStatus [] word = None"
| "getLabelStatus (t # ts) word = (if label_name t = word then Some (type' t) else getLabelStatus ts word)"

text \<open>\<open>getLabelAddress\<close>: the value of the first node of that name, -1 when there is none.\<close>

fun getLabelAddress :: "l_item list \<Rightarrow> string \<Rightarrow> int" where
  "getLabelAddress [] word = - 1"
| "getLabelAddress (t # ts) word = (if label_name t = word then value' t else getLabelAddress ts word)"

definition addLabel :: "l_item list \<Rightarrow> string \<Rightarrow> int \<Rightarrow> string \<Rightarrow> l_item list" where
  "addLabel Labelhptr name value_num instructionWord =
     Labelhptr @ [\<lparr>label_name = name, value' = value_num, type' = instructionWord\<rparr>]"

definition loadLabelExtern :: "l_item list \<Rightarrow> string \<Rightarrow> l_item list" where
  "loadLabelExtern Labelhptr name =
     Labelhptr @ [\<lparr>label_name = name, value' = 0, type' = ''.external''\<rparr>]"

text \<open>
  \<open>updateLabels(IC)\<close>: the loop over the list; a node of type \<open>.data\<close> or
  \<open>.string\<close> gets \<open>IC + 100\<close> added to its value, every other node is passed over.
\<close>

fun updateLabels :: "int \<Rightarrow> l_item list \<Rightarrow> l_item list" where
  "updateLabels IC [] = []"
| "updateLabels IC (p # ps) =
     (if type' p = ''.data'' \<or> type' p = ''.string''
      then p\<lparr>value' := value' p + (IC + 100)\<rparr> # updateLabels IC ps
      else p # updateLabels IC ps)"

section \<open>The memory images (assembler.h)\<close>

text \<open>
  \<open>mila\<close> is an \<open>unsigned short\<close>: 16 bits.  A node of the data image and a node of
  the instruction image hold a cell and its address; a new node is appended at the end of
  its list (\<open>insertDataToNode\<close> followed by \<open>assignNodeToList\<close>).
\<close>

type_synonym mila = "16 word"

record node =
  cell :: mila
  address :: int

definition assignNodeToList :: "node list \<Rightarrow> mila \<Rightarrow> int \<Rightarrow> node list" where
  "assignNodeToList hptr space IC = hptr @ [\<lparr>cell = space, address = IC\<rparr>]"

definition MEMORY_SIZE :: int where
  "MEMORY_SIZE = 4096"

section \<open>The first stage: the helpers (first\_stage\_func.c)\<close>

text \<open>
  The scan that \<open>clearOfMacro\<close> and \<open>findDataOrStringWord\<close> share: skip the white
  space, stop at the end of the line, else copy at most 80 characters of the word.
\<close>

definition next_word :: "string \<Rightarrow> (string \<times> string) option" where
  "next_word line =
     (let l = dropWhile isspace line
      in if l = [] then None
         else (let word = take 80 (takeWhile (\<lambda>c. \<not> isspace c) l)
               in Some (word, drop (length word) l)))"

lemma next_word_shorter:
  assumes "next_word line = Some (word, rest)"
  shows "length rest < length line"
proof -
  define l where "l = dropWhile isspace line"
  from assms have ne: "l \<noteq> []"
    by (auto simp: next_word_def l_def Let_def split: if_splits)
  then have "\<not> isspace (hd l)"
    unfolding l_def by (rule hd_dropWhile)
  with ne have "takeWhile (\<lambda>c. \<not> isspace c) l \<noteq> []"
    by (cases l) auto
  then have w: "take 80 (takeWhile (\<lambda>c. \<not> isspace c) l) \<noteq> []"
    by (cases "takeWhile (\<lambda>c. \<not> isspace c) l") auto
  from assms have "rest = drop (length (take 80 (takeWhile (\<lambda>c. \<not> isspace c) l))) l"
    by (auto simp: next_word_def l_def Let_def split: if_splits)
  with w ne have "length rest < length l"
    by (cases "take 80 (takeWhile (\<lambda>c. \<not> isspace c) l)") auto
  moreover have "length l \<le> length line"
    unfolding l_def by (rule length_dropWhile_le)
  ultimately show ?thesis by simp
qed

function clearOfMacro :: "m_item list \<Rightarrow> string \<Rightarrow> int" where
  "clearOfMacro hptr line =
     (case next_word line of
        None \<Rightarrow> 1
      | Some (word, rest) \<Rightarrow>
          if word = ''macr'' then 0
          else if isMacro hptr word then 0
          else clearOfMacro hptr rest)"
  by pat_completeness auto
termination
  by (relation "measure (\<lambda>(hptr, line). length line)") (auto simp: next_word_shorter)

declare clearOfMacro.simps [simp del]

function findDataOrStringWord :: "string \<Rightarrow> string option" where
  "findDataOrStringWord line =
     (case next_word line of
        None \<Rightarrow> None
      | Some (word, rest) \<Rightarrow>
          if word = ''.data'' \<or> word = ''.string'' then Some word
          else findDataOrStringWord rest)"
  by pat_completeness auto
termination
  by (relation "measure length") (auto simp: next_word_shorter)

declare findDataOrStringWord.simps [simp del]

text \<open>
  \<open>findEntryOrExternWord\<close>: the string \<open>"1"\<close> is the regular error, NULL is "not
  found".
\<close>

definition findEntryOrExternWord :: "string \<Rightarrow> string option" where
  "findEntryOrExternWord line =
     (let first_word = first_word_of line; second_word = get_second_word line
      in if (first_word = ''.entry'' \<and> second_word = ''.extern'') \<or>
            (first_word = ''.extern'' \<and> second_word = ''.entry'') then Some ''1''
         else if (first_word = ''.entry'' \<and> second_word = ''.entry'') \<or>
                 (first_word = ''.extern'' \<and> second_word = ''.extern'') then Some ''1''
         else if first_word = ''.entry'' \<or> second_word = ''.entry'' then Some ''.entry''
         else if first_word = ''.extern'' \<or> second_word = ''.extern'' then Some ''.extern''
         else None)"

definition instructionWords :: "string list" where
  "instructionWords =
     [''mov'', ''cmp'', ''add'', ''sub'', ''lea'', ''clr'', ''not'', ''inc'', ''dec'', ''jmp'',
      ''bne'', ''red'', ''prn'', ''jsr'', ''rts'', ''stop'']"

definition registers :: "string list" where
  "registers = [''r0'', ''r1'', ''r2'', ''r3'', ''r4'', ''r5'', ''r6'', ''r7'']"

definition invalidlabelName :: "string list" where
  "invalidlabelName =
     instructionWords @ [''.data'', ''.string'', ''.entry'', ''.extern''] @ registers"

text \<open>
  \<open>isLabel\<close>: 1 a valid label definition, 0 no label, 2 an invalid one, 3 when the
  second word is \<open>.extern\<close> or \<open>.entry\<close>.  The source reads \<open>*(end-1)\<close>, the last
  character of the first word; on a line of white space only this is a white space
  character, not a colon.  The label is the word without its colon; more than 31
  characters are refused.
\<close>

definition isLabel :: "m_item list \<Rightarrow> string \<Rightarrow> int" where
  "isLabel hptr line =
     (let second_word = get_second_word line
      in if second_word = ''.extern'' \<or> second_word = ''.entry'' then 3
         else
           (let l = dropWhile isspace line;
                w = takeWhile (\<lambda>c. \<not> isspace c) l;
                e = dropWhile (\<lambda>c. \<not> isspace c) l
            in if w \<noteq> [] \<and> last w = CHR '':'' then
                 (let label = butlast w
                  in if 31 < length label then 2
                     else if label = [] \<or> \<not> isalpha (hd label) then 2
                     else if label \<in> set invalidlabelName then 2
                     else if isMacro hptr label then 2
                     else 1)
               else
                 (let e' = dropWhile isspace e
                  in if e' \<noteq> [] \<and> hd e' = CHR '':'' then 2 else 0)))"

definition validInstructionName :: "string \<Rightarrow> bool" where
  "validInstructionName first_word = (first_word \<in> set instructionWords)"

text \<open>
  The tables of the legal addressing types; \<open>NONE\<close> is -1, as in the source, and a
  table entry \<open>NONE\<close> matches the addressing type -1.
\<close>

definition NONE :: int where
  "NONE = - 1"

definition count_matches :: "int \<Rightarrow> int list \<Rightarrow> nat" where
  "count_matches t ts = length (filter (\<lambda>x. t = x) ts)"

definition table1 :: "(string \<times> int list) list" where
  "table1 =
     [(''clr'', [1, 2, 3, NONE]), (''not'', [1, 2, 3, NONE]), (''inc'', [1, 2, 3, NONE]),
      (''dec'', [1, 2, 3, NONE]), (''jmp'', [1, 2, NONE, NONE]), (''bne'', [1, 2, NONE, NONE]),
      (''red'', [1, 2, 3, NONE]), (''prn'', [0, 1, 2, 3]), (''jsr'', [1, 2, NONE, NONE])]"

definition table2 :: "(string \<times> int list \<times> int list) list" where
  "table2 =
     [(''mov'', [0, 1, 2, 3], [NONE, 1, 2, 3]),
      (''cmp'', [0, 1, 2, 3], [0, 1, 2, 3]),
      (''add'', [0, 1, 2, 3], [NONE, 1, 2, 3]),
      (''sub'', [0, 1, 2, 3], [NONE, 1, 2, 3]),
      (''lea'', [NONE, 1, NONE, NONE], [NONE, 1, 2, 3])]"

definition validInstructionAddress :: "string \<Rightarrow> int \<Rightarrow> bool" where
  "validInstructionAddress instructionType addressingType =
     list_ex (\<lambda>(name, ts). instructionType = name \<and> 0 < count_matches addressingType ts) table1"

definition valid2operandsAddress :: "string \<Rightarrow> int \<Rightarrow> int \<Rightarrow> bool" where
  "valid2operandsAddress instructionType firstAddressingType secondAddressingType =
     (sum_list (map (\<lambda>(name, first_addressing, second_addressing).
          if instructionType = name
          then count_matches firstAddressingType first_addressing +
               count_matches secondAddressingType second_addressing
          else 0) table2) = 2)"

definition validOperandAddress :: "string \<Rightarrow> int \<Rightarrow> string \<Rightarrow> bool" where
  "validOperandAddress instructionType AddressingType source_or_target =
     (if AddressingType = - 2 then True
      else sum_list (map (\<lambda>(name, source_addressing, target_addressing).
             if instructionType = name
             then (if source_or_target = ''source'' then count_matches AddressingType source_addressing
                   else if source_or_target = ''target'' then count_matches AddressingType target_addressing
                   else 0)
             else 0) table2) = 1)"

text \<open>
  \<open>replaceCommas\<close> writes a blank over the commas of the line it is given, in place,
  and returns 0 as soon as the commas are out of order; the caller's buffer keeps what
  was overwritten until then.  The model returns the code and the buffer.  The first
  argument of the loop is \<open>comma_found\<close> of the round before, which the source reads
  after the loop.
\<close>

lemma dropWhile_shorter: "dropWhile P xs \<noteq> xs \<Longrightarrow> length (dropWhile P xs) < length xs"
  by (cases xs) (auto simp: less_Suc_eq_le length_dropWhile_le split: if_splits)

lemma dropWhile_hd_shorter: "xs \<noteq> [] \<Longrightarrow> P (hd xs) \<Longrightarrow> length (dropWhile P xs) < length xs"
  by (cases xs) (auto simp: less_Suc_eq_le length_dropWhile_le)

function replaceCommas_loop :: "bool \<Rightarrow> string \<Rightarrow> int \<times> string" where
  "replaceCommas_loop comma_found line =
     (if line = [] then (if comma_found then 0 else 1, [])
      else
        let w = takeWhile (\<lambda>c. \<not> isspace c \<and> c \<noteq> CHR '','') line;
            r = dropWhile (\<lambda>c. \<not> isspace c \<and> c \<noteq> CHR '','') line;
            comma = (r \<noteq> [] \<and> hd r = CHR '','');
            out1 = (if comma then w @ '' '' else w);
            r1 = (if comma then tl r else r);
            sp = takeWhile isspace r1;
            r2 = dropWhile isspace r1
        in if r2 \<noteq> [] \<and> hd r2 \<noteq> CHR '','' \<and> \<not> comma then (0, out1 @ sp @ r2)
           else if r2 \<noteq> [] \<and> hd r2 = CHR '','' \<and> comma then (0, out1 @ sp @ r2)
           else (case replaceCommas_loop comma r2 of (res, out) \<Rightarrow> (res, out1 @ sp @ out)))"
  by pat_completeness auto
termination
proof (relation "measure (\<lambda>(cf, line). length line)")
  show "wf (measure (\<lambda>(cf, line). length line))" by simp
next
  fix comma_found :: bool and line w r :: string and comma :: bool and out1 r1 sp r2 :: string
  assume ne: "line \<noteq> []"
    and r: "r = dropWhile (\<lambda>c. \<not> isspace c \<and> c \<noteq> CHR '','') line"
    and comma: "comma = (r \<noteq> [] \<and> hd r = CHR '','')"
    and r1: "r1 = (if comma then tl r else r)"
    and r2: "r2 = dropWhile isspace r1"
    and n1: "\<not> (r2 \<noteq> [] \<and> hd r2 \<noteq> CHR '','' \<and> \<not> comma)"
  have le_r: "length r \<le> length line" using r by (simp add: length_dropWhile_le)
  have le_r2: "length r2 \<le> length r1" using r2 by (simp add: length_dropWhile_le)
  have "length r2 < length line"
  proof (cases comma)
    case True
    then have "r \<noteq> []" using comma by simp
    then have "length r1 < length r" using r1 True by (cases r) auto
    with le_r le_r2 show ?thesis by simp
  next
    case False
    show ?thesis
    proof (cases "r2 = []")
      case True
      with ne show ?thesis by simp
    next
      case ne2: False
      with n1 False have "hd r2 = CHR '',''" by simp
      with False comma r1 r2 ne2 have "dropWhile isspace r \<noteq> r" by auto
      then have "length r2 < length r"
        using r1 r2 False by (simp add: dropWhile_shorter)
      with le_r show ?thesis by simp
    qed
  qed
  then show "((comma, r2), (comma_found, line)) \<in> measure (\<lambda>(cf, line). length line)"
    by simp
qed

declare replaceCommas_loop.simps [simp del]

definition replaceCommas :: "string \<Rightarrow> int \<times> string" where
  "replaceCommas line =
     (let rest = skipFirstWord line; pre = take (length line - length rest) line
      in if rest \<noteq> [] \<and> hd rest = CHR '','' then (0, line)
         else (case replaceCommas_loop False rest of (res, out) \<Rightarrow> (res, pre @ out)))"

text \<open>
  \<open>addSpacesAfterCommas\<close> copies the line into a static buffer of 81 bytes with a
  blank after every comma, and cuts the copy at 80 characters; the argument \<open>j\<close> is the
  number of characters already in the buffer.  \<open>replaceCommasWithSpaces\<close> does the
  same with a blank in place of every comma.
\<close>

fun addSpaces_from :: "nat \<Rightarrow> string \<Rightarrow> string" where
  "addSpaces_from j [] = []"
| "addSpaces_from j (c # cs) =
     (if 80 \<le> j then []
      else if c = CHR '','' then
        (if 80 \<le> j + 1 then [c] else c # CHR '' '' # addSpaces_from (j + 2) cs)
      else c # addSpaces_from (j + 1) cs)"

definition addSpacesAfterCommas :: "string \<Rightarrow> string" where
  "addSpacesAfterCommas line = addSpaces_from 0 line"

definition replaceCommasWithSpaces :: "string \<Rightarrow> string" where
  "replaceCommasWithSpaces line =
     take 80 (map (\<lambda>c. if c = CHR '','' then CHR '' '' else c) line)"

text \<open>
  \<open>getAddressingType\<close>: 0 to 3 the addressing type, -1 an error, -2 an operand that
  is a label of a later line or no operand at all.
\<close>

definition getAddressingType :: "l_item list \<Rightarrow> string \<Rightarrow> int" where
  "getAddressingType Labelhptr operand =
     (if operand \<noteq> [] \<and> hd operand = CHR ''#'' then
        (if tl operand \<noteq> [] \<and> (hd (tl operand) = CHR ''-'' \<or> isdigit (hd (tl operand))) then
           (if length (takeWhile (\<lambda>c. \<not> isspace c \<and> c \<noteq> CHR '','') (tl operand)) = 0
            then - 1 else 0)
         else - 1)
      else if isAlreadyLabel Labelhptr operand then 1
      else if operand \<noteq> [] \<and> hd operand = CHR ''*'' then
        (if tl operand \<in> set registers then 2 else - 1)
      else if operand \<in> set registers then 3
      else - 2)"

text \<open>
  \<open>encodeMila\<close>: the operand word.  1 is success (also for a label that is not in the
  table: no word is written), 2 an error.  \<open>space.MILA |= (num << 3)\<close> stores the low
  16 bits of the shifted number.  The callers pass the addressing types 0 to 3 only; for any
  other the source runs off the end of the function, here the code 0.
\<close>

definition encodeMila ::
  "l_item list \<Rightarrow> node list \<Rightarrow> int \<Rightarrow> string \<Rightarrow> int \<Rightarrow> string \<Rightarrow> int \<times> node list" where
  "encodeMila Labelhptr hptr first_adressing_type operand IC operandType =
     (if first_adressing_type = 0 then
        (let num = atoi (tl operand)
         in if num > 4095 then (2, hptr)
            else (1, assignNodeToList hptr (4 OR push_bit 3 (word_of_int num)) IC))
      else if first_adressing_type = 1 then
        (let labelStatus = getLabelStatus Labelhptr operand;
             Labeladdress = getLabelAddress Labelhptr operand
         in if Labeladdress = - 1 then (1, hptr)
            else if labelStatus = Some ''.external'' then (1, assignNodeToList hptr 1 IC)
            else (1, assignNodeToList hptr (2 OR push_bit 3 (word_of_int Labeladdress)) IC))
      else if first_adressing_type = 2 \<or> first_adressing_type = 3 then
        (let registerNum = atoi (if first_adressing_type = 2 then drop 2 operand else drop 1 operand)
         in if registerNum > 7 then (2, hptr)
            else (1, assignNodeToList hptr
                   (4 OR (if operandType = ''target'' then push_bit 3 (word_of_int registerNum)
                          else if operandType = ''source'' then push_bit 6 (word_of_int registerNum)
                          else 0)) IC))
      else (0, hptr))"

text \<open>
  \<open>checkERRloadLabelADRRtype\<close>: 2 with the information word stored when the addressing
  type is -1, 1 with the label addressing bit set when it is -2, else 0 and nothing stored.
\<close>

definition checkERRloadLabelADRRtype :: "node list \<Rightarrow> int \<Rightarrow> mila \<Rightarrow> int \<Rightarrow> int \<times> node list" where
  "checkERRloadLabelADRRtype hptr first_adressing_type space IC =
     (if first_adressing_type = - 1 then (2, assignNodeToList hptr space IC)
      else if first_adressing_type = - 2 then (1, assignNodeToList hptr (space OR push_bit 4 1) IC)
      else (0, hptr))"

definition checkValidOperands :: "bool \<Rightarrow> bool \<Rightarrow> string \<Rightarrow> int \<Rightarrow> int \<Rightarrow> int" where
  "checkValidOperands FIRST_IS_FUTURE_LABEL SECOND_IS_FUTURE_LABEL instructionType
       first_adressing_type second_addressing_type =
     (if FIRST_IS_FUTURE_LABEL \<and> SECOND_IS_FUTURE_LABEL then 1
      else if SECOND_IS_FUTURE_LABEL then
        (if \<not> validOperandAddress instructionType second_addressing_type ''target'' then 2 else 3)
      else if FIRST_IS_FUTURE_LABEL then
        (if \<not> validOperandAddress instructionType first_adressing_type ''source'' then 2 else 3)
      else if \<not> valid2operandsAddress instructionType first_adressing_type second_addressing_type
        then 2
      else 0)"

text \<open>
  \<open>encodeRegisterMilaOnly\<close>: the one word of two register operands; 0 is the error of
  a register number above 7.
\<close>

definition encodeRegisterMilaOnly :: "node list \<Rightarrow> string \<Rightarrow> int \<Rightarrow> int \<times> node list" where
  "encodeRegisterMilaOnly hptr line IC =
     (let word1 = dropWhile (\<lambda>c. \<not> isspace c \<and> \<not> isdigit c) (first_word_of line);
          first_registerNum = atoi (first_word_of word1)
      in if first_registerNum > 7 then (0, hptr)
         else
           (let word2 = dropWhile (\<lambda>c. \<not> isspace c \<and> \<not> isdigit c) (get_second_word line);
                second_registerNum = atoi (first_word_of word2)
            in if second_registerNum > 7 then (0, hptr)
               else (1, assignNodeToList hptr
                      (4 OR push_bit 6 (word_of_int first_registerNum) OR
                       push_bit 3 (word_of_int second_registerNum)) IC)))"

text \<open>
  \<open>addInstruction\<close>: 1 is success, 2 an error; the instruction image is returned as the
  function leaves it, also on an error.  \<open>line\<close> starts at the instruction word.  In
  the case of two operands \<open>instructionTypeBuffer\<close> holds the instruction word (the
  pointer \<open>instructionType\<close> itself points into the buffer of \<open>get_first_word\<close>, which
  the first operand overwrites).  \<open>encodeMila\<close> is called with the addressing types 0 to 3
  and returns 1 or 2.
\<close>

definition addInstruction_one ::
  "l_item list \<Rightarrow> node list \<Rightarrow> string \<Rightarrow> string \<Rightarrow> int \<Rightarrow> int \<Rightarrow> int \<times> node list" where
  "addInstruction_one Labelhptr hptr line instructionType IC opcode =
     (let space = 4 OR push_bit 11 (word_of_int opcode);
          operand = get_second_word line;
          first_adressing_type = getAddressingType Labelhptr operand
      in case checkERRloadLabelADRRtype hptr first_adressing_type space IC of
           (AddressErrType, hptr1) \<Rightarrow>
             if AddressErrType \<noteq> 0 then (AddressErrType, hptr1)
             else if \<not> validInstructionAddress instructionType first_adressing_type
               then (2, assignNodeToList hptr space IC)
             else
               (let space1 = space OR push_bit (nat (first_adressing_type + 3)) 1;
                    hptr2 = assignNodeToList hptr space1 IC
                in case encodeMila Labelhptr hptr2 first_adressing_type operand (IC + 1) ''target'' of
                     (encode_err_type, hptr3) \<Rightarrow>
                       if encode_err_type = 2 then (2, hptr3) else (1, hptr3)))"

definition addInstruction_two ::
  "l_item list \<Rightarrow> node list \<Rightarrow> string \<Rightarrow> string \<Rightarrow> int \<Rightarrow> int \<Rightarrow> int \<times> node list" where
  "addInstruction_two Labelhptr hptr line0 instructionType IC opcode =
     (let space = 4 OR push_bit 11 (word_of_int opcode);
          line = skipFirstWord line0;
          instructionTypeBuffer = instructionType;
          first_operand = first_word_of line;
          first_adressing_type = getAddressingType Labelhptr first_operand
      in if first_adressing_type = - 1 then (2, assignNodeToList hptr space IC)
         else
           (let FIRST_IS_FUTURE_LABEL = (first_adressing_type = - 2);
                second_operand = get_second_word line;
                second_addressing_type = getAddressingType Labelhptr second_operand
            in if second_addressing_type = - 1 then (2, assignNodeToList hptr space IC)
               else
                 (let SECOND_IS_FUTURE_LABEL = (second_addressing_type = - 2);
                      checkValidOperand =
                        checkValidOperands FIRST_IS_FUTURE_LABEL SECOND_IS_FUTURE_LABEL
                          instructionTypeBuffer first_adressing_type second_addressing_type
                  in if checkValidOperand = 2 then (2, assignNodeToList hptr space IC)
                     else if checkValidOperand = 1 then
                       (1, assignNodeToList hptr (space OR push_bit 8 1 OR push_bit 4 1) IC)
                     else
                       (let space1 = (if \<not> FIRST_IS_FUTURE_LABEL
                                      then space OR push_bit (nat (first_adressing_type + 7)) 1
                                      else space);
                            space2 = (if \<not> SECOND_IS_FUTURE_LABEL
                                      then space1 OR push_bit (nat (second_addressing_type + 3)) 1
                                      else space1);
                            space3 = (if FIRST_IS_FUTURE_LABEL then space2 OR push_bit 8 1 else space2);
                            space4 = (if SECOND_IS_FUTURE_LABEL then space3 OR push_bit 4 1 else space3);
                            hptr1 = assignNodeToList hptr space4 IC
                        in if FIRST_IS_FUTURE_LABEL \<and> \<not> SECOND_IS_FUTURE_LABEL then
                             (case encodeMila Labelhptr hptr1 second_addressing_type second_operand
                                     (IC + 2) ''target'' of
                                (encode_err_type, hptr2) \<Rightarrow>
                                  if encode_err_type = 2 then (2, hptr2) else (1, hptr2))
                           else if (first_adressing_type = 2 \<or> first_adressing_type = 3) \<and>
                                   (second_addressing_type = 2 \<or> second_addressing_type = 3) then
                             (case encodeRegisterMilaOnly hptr1 line (IC + 1) of
                                (r, hptr2) \<Rightarrow> if r = 0 then (2, hptr2) else (1, hptr2))
                           else
                             (case encodeMila Labelhptr hptr1 first_adressing_type first_operand
                                     (IC + 1) ''source'' of
                                (encode_err_type1, hptr2) \<Rightarrow>
                                  if encode_err_type1 = 2 then (2, hptr2)
                                  else if SECOND_IS_FUTURE_LABEL then (1, hptr2)
                                  else
                                    (case encodeMila Labelhptr hptr2 second_addressing_type
                                            second_operand (IC + 2) ''target'' of
                                       (encode_err_type2, hptr3) \<Rightarrow>
                                         if encode_err_type2 = 2 then (2, hptr3) else (1, hptr3)))))))"

definition addInstruction ::
  "l_item list \<Rightarrow> node list \<Rightarrow> string \<Rightarrow> string \<Rightarrow> int \<Rightarrow> int \<Rightarrow> int \<Rightarrow> int \<times> node list" where
  "addInstruction Labelhptr hptr line instructionType InstructionLength IC opcode =
     (if InstructionLength = 0
        then (1, assignNodeToList hptr (4 OR push_bit 11 (word_of_int opcode)) IC)
      else if InstructionLength = 1
        then addInstruction_one Labelhptr hptr line instructionType IC opcode
      else if InstructionLength = 2
        then addInstruction_two Labelhptr hptr line instructionType IC opcode
      else (1, hptr))"

text \<open>
  What a function of the passes gives back: its value, the regular error (the code -1,
  0 or 2 of the source), the error that stops the program (the code 2 of a pass), or
  nothing the source defines.
\<close>

datatype 'a result = Ok 'a | Regular_error | Fatal_error | Undefined_behaviour

text \<open>
  \<open>encodeInstruction\<close>: the number of words \<open>L\<close> of the line, or -1.  The table of the
  instructions is searched for the instruction word; the index found is the opcode.  For a
  word that is not in the table the source goes on with \<open>opcode\<close> not initialised.
\<close>

definition instructionType_table :: "(string \<times> int) list" where
  "instructionType_table =
     [(''mov'', 2), (''cmp'', 2), (''add'', 2), (''sub'', 2), (''lea'', 2), (''clr'', 1),
      (''not'', 1), (''inc'', 1), (''dec'', 1), (''jmp'', 1), (''bne'', 1), (''red'', 1),
      (''prn'', 1), (''jsr'', 1), (''rts'', 0), (''stop'', 0)]"

fun find_opcode :: "(string \<times> int) list \<Rightarrow> string \<Rightarrow> int \<Rightarrow> int \<Rightarrow> int result" where
  "find_opcode [] instruction_word instruction_length i = Undefined_behaviour"
| "find_opcode ((instruction, operand_num) # rest) instruction_word instruction_length i =
     (if instruction_word = instruction
      then (if instruction_length \<noteq> operand_num then Regular_error else Ok i)
      else find_opcode rest instruction_word instruction_length (i + 1))"

definition encodeInstruction ::
  "l_item list \<Rightarrow> node list \<Rightarrow> string \<Rightarrow> bool \<Rightarrow> int \<Rightarrow> int result \<times> node list" where
  "encodeInstruction Labelhptr hptr line0 LABEL_FLAG IC =
     (let line1 = addSpacesAfterCommas line0;
          line2 = (if LABEL_FLAG then skipFirstWord line1 else line1)
      in case replaceCommas line2 of
           (commas, line) \<Rightarrow>
             if commas = 0 then (Regular_error, hptr)
             else
               (let instruction_word = first_word_of line;
                    instruction_length = countWords (skipFirstWord line);
                    L = 1 + instruction_length
                in case find_opcode instructionType_table instruction_word instruction_length 0 of
                     Ok opcode \<Rightarrow>
                       (case addInstruction Labelhptr hptr line instruction_word
                               instruction_length IC opcode of
                          (err_type, hptr') \<Rightarrow>
                            if err_type = 2 then (Regular_error, hptr') else (Ok L, hptr'))
                   | r \<Rightarrow> (r, hptr)))"

definition isAddressType2Or3 :: "m_item list \<Rightarrow> l_item list \<Rightarrow> string \<Rightarrow> bool" where
  "isAddressType2Or3 hptr Labelhptr line0 =
     (let line1 = addSpacesAfterCommas line0;
          first_word = first_word_of line1;
          line2 = (if isLabel hptr first_word = 1 then skipFirstWord line1 else line1);
          line3 = dropWhile isspace line2;
          line4 = skip_word line3;
          line = replaceCommasWithSpaces line4;
          first_adressing_type = getAddressingType Labelhptr (first_word_of line);
          second_adressing_type = getAddressingType Labelhptr (get_second_word line)
      in (first_adressing_type = 2 \<or> first_adressing_type = 3) \<and>
         (second_adressing_type = 2 \<or> second_adressing_type = 3))"

text \<open>
  The data image.  \<open>addData\<close> stores \<open>(unsigned short)number\<close>, all 16 bits of it.
  \<open>addString\<close> stores \<open>(unsigned short)c\<close> for the \<open>char\<close> \<open>c\<close>, a signed byte:
  the character code when it is below 128, and the code extended with ones (0xFF00 added)
  when it is not.
\<close>

definition addData :: "node list \<Rightarrow> int \<Rightarrow> int \<Rightarrow> node list" where
  "addData Data_hptr number DC_address = Data_hptr @ [\<lparr>cell = word_of_int number, address = DC_address\<rparr>]"

definition addString :: "node list \<Rightarrow> char \<Rightarrow> int \<Rightarrow> node list" where
  "addString Data_hptr c DC_address =
     Data_hptr @ [\<lparr>cell = (if (of_char c :: nat) < 128 then of_char c else of_char c + 0xFF00),
                    address = DC_address\<rparr>]"

definition MAX_NUMBER :: int where
  "MAX_NUMBER = 32767"

text \<open>
  The loop of \<open>encodeData\<close> over the numbers of \<open>.data\<close>: the new \<open>DC\<close>, or -1; the
  data image keeps the numbers stored before an error.
\<close>

lemma encodeData_numbers_shorter:
  assumes l1: "l1 = dropWhile isspace line"
    and ok: "\<not> (l1 = [] \<or> (hd l1 \<noteq> CHR ''+'' \<and> hd l1 \<noteq> CHR ''-'' \<and> \<not> isdigit (hd l1)))"
    and l2: "l2 = (if hd l1 = CHR ''+'' then tl l1 else l1)"
    and negative: "negative = (l2 \<noteq> [] \<and> hd l2 = CHR ''-'')"
    and l3: "l3 = (if negative then tl l2 else l2)"
    and l4: "l4 = dropWhile isdigit l3"
    and l5: "l5 = dropWhile isspace l4"
  shows "length l5 < length line"
    and "length (dropWhile isspace (tl l5)) < length line"
proof -
  have "length l4 < length l1"
  proof (cases "hd l1 = CHR ''+''")
    case True
    with ok l2 have "length l2 < length l1" by (cases l1) auto
    moreover have "length l3 \<le> length l2" using l3 by (cases l2) auto
    moreover have "length l4 \<le> length l3" using l4 by (simp add: length_dropWhile_le)
    ultimately show ?thesis by simp
  next
    case plus: False
    with l2 have l2': "l2 = l1" by simp
    show ?thesis
    proof (cases negative)
      case True
      with l3 l2' ok have "length l3 < length l1" by (cases l1) auto
      moreover have "length l4 \<le> length l3" using l4 by (simp add: length_dropWhile_le)
      ultimately show ?thesis by simp
    next
      case False
      with l3 l2' have l3': "l3 = l1" by simp
      from False negative l2' ok plus have "isdigit (hd l1)" by auto
      with ok l3' l4 show ?thesis by (simp add: dropWhile_hd_shorter)
    qed
  qed
  moreover have "length l1 \<le> length line" using l1 by (simp add: length_dropWhile_le)
  moreover have "length l5 \<le> length l4" using l5 by (simp add: length_dropWhile_le)
  ultimately show five: "length l5 < length line" by simp
  have "length (dropWhile isspace (tl l5)) \<le> length (tl l5)" by (rule length_dropWhile_le)
  with five show "length (dropWhile isspace (tl l5)) < length line" by simp
qed

function encodeData_numbers :: "node list \<Rightarrow> int \<Rightarrow> bool \<Rightarrow> string \<Rightarrow> int \<times> node list" where
  "encodeData_numbers hptr DC_address numberFound line =
     (if line = [] then (if numberFound then DC_address else - 1, hptr)
      else
        let l1 = dropWhile isspace line
        in if l1 = [] \<or> (hd l1 \<noteq> CHR ''+'' \<and> hd l1 \<noteq> CHR ''-'' \<and> \<not> isdigit (hd l1)) then (- 1, hptr)
           else
             let l2 = (if hd l1 = CHR ''+'' then tl l1 else l1);
                 negative = (l2 \<noteq> [] \<and> hd l2 = CHR ''-'');
                 l3 = (if negative then tl l2 else l2);
                 numberBuffer = (if negative then ''-'' else []) @ takeWhile isdigit l3;
                 l4 = dropWhile isdigit l3;
                 number = atoi numberBuffer
             in if numberBuffer \<noteq> [] \<and> (number > MAX_NUMBER \<or> number < - MAX_NUMBER) then (- 1, hptr)
                else
                  let hptr' = (if numberBuffer \<noteq> [] then addData hptr number DC_address else hptr);
                      DC' = (if numberBuffer \<noteq> [] then DC_address + 1 else DC_address);
                      found = (numberFound \<or> numberBuffer \<noteq> []);
                      l5 = dropWhile isspace l4
                  in if l5 \<noteq> [] \<and> hd l5 = CHR '','' then
                       (let l6 = dropWhile isspace (tl l5)
                        in if l6 = [] \<or> hd l6 = CHR '','' \<or>
                              (\<not> isdigit (hd l6) \<and> hd l6 \<noteq> CHR ''-'' \<and> hd l6 \<noteq> CHR ''+'')
                           then (- 1, hptr')
                           else encodeData_numbers hptr' DC' found l6)
                     else encodeData_numbers hptr' DC' found l5)"
  by pat_completeness auto
termination
proof (relation "measure (\<lambda>(hptr, DC_address, numberFound, line). length line)", goal_cases)
  case 1
  show ?case by simp
next
  case (2 hptr DC_address numberFound line l1 l2 negative l3 numberBuffer l4 number hptr' DC' found l5 l6)
  have "length (dropWhile isspace (tl l5)) < length line"
    by (rule encodeData_numbers_shorter(2) [OF 2(2) 2(3) 2(4) 2(5) 2(6) 2(8) 2(14)])
  with 2(16) show ?case by simp
next
  case (3 hptr DC_address numberFound line l1 l2 negative l3 numberBuffer l4 number hptr' DC' found l5)
  have "length l5 < length line"
    by (rule encodeData_numbers_shorter(1) [OF 3(2) 3(3) 3(4) 3(5) 3(6) 3(8) 3(14)])
  then show ?case by simp
qed

declare encodeData_numbers.simps [simp del]

fun addString_chars :: "node list \<Rightarrow> string \<Rightarrow> int \<Rightarrow> node list" where
  "addString_chars hptr [] DC_address = hptr"
| "addString_chars hptr (c # cs) DC_address = addString_chars (addString hptr c DC_address) cs (DC_address + 1)"

text \<open>
  \<open>encodeData\<close>: \<open>line0\<close> is the whole line, in which the quotes of \<open>.string\<close> are
  counted.  When one of the two quotes stands before the directive, no closing quote
  follows the opening one: the loop over the characters ends at the end of the string, and
  \<open>line++\<close> after the loop steps beyond it, where the source reads what
  an earlier line left in the buffer, or leaves the buffer: \<open>Undefined_behaviour\<close>.
\<close>

definition encodeData ::
  "node list \<Rightarrow> string \<Rightarrow> int \<Rightarrow> string \<Rightarrow> bool \<Rightarrow> (int \<times> node list) result" where
  "encodeData hptr line0 DC_address dataType LABEL_FLAG =
     (let line = (if LABEL_FLAG
                  then dropWhile isspace (dropWhile (\<lambda>c. \<not> isspace c) (skipFirstWord line0))
                  else skipFirstWord line0)
      in if dataType = ''.data'' then
           (if line \<noteq> [] \<and> hd line = CHR '','' then Ok (- 1, hptr)
            else Ok (encodeData_numbers hptr DC_address False line))
         else if dataType = ''.string'' then
           (if length (filter (\<lambda>c. c = CHR 0x22) line0) \<noteq> 2 then Ok (- 1, hptr)
            else if line = [] \<or> hd line \<noteq> CHR 0x22 then Ok (- 1, hptr)
            else if tl line \<noteq> [] \<and> hd (tl line) = CHR 0x22 then Ok (- 1, hptr)
            else
              (let chars = takeWhile (\<lambda>c. c \<noteq> CHR 0x22) (tl line);
                   rest = dropWhile (\<lambda>c. c \<noteq> CHR 0x22) (tl line);
                   hptr1 = addString_chars hptr chars DC_address;
                   DC1 = DC_address + int (length chars);
                   hptr2 = addString hptr1 (CHR 0x00) DC1
               in if rest = [] then Undefined_behaviour
                  else if dropWhile isspace (tl rest) \<noteq> [] then Ok (- 1, hptr2)
                  else Ok (DC1 + 1, hptr2)))
         else Ok (DC_address, hptr))"

text \<open>
  \<open>addExtern\<close>: 1 with the label appended as \<open>.external\<close>, or 0.  The test
  \<open>line == '\\0'\<close> of the source compares the pointer and never holds.
\<close>

definition addExtern :: "m_item list \<Rightarrow> l_item list \<Rightarrow> string \<Rightarrow> int \<Rightarrow> int \<times> l_item list" where
  "addExtern hptr Labelhptr line0 label_err =
     (let line1 = (if label_err = 3 then skipFirstWord line0 else line0);
          line = dropWhile isspace (skipFirstWord line1);
          label = takeWhile (\<lambda>c. \<not> isspace c) line
      in if 31 < length label then (0, Labelhptr)
         else if skipFirstWord line \<noteq> [] then (0, Labelhptr)
         else if label \<in> set invalidlabelName then (0, Labelhptr)
         else if isMacro hptr label then (0, Labelhptr)
         else if isAlreadyLabel Labelhptr label then (0, Labelhptr)
         else (1, loadLabelExtern Labelhptr label))"

section \<open>The first stage (first\_stage.c)\<close>

text \<open>
  The variables of \<open>first_stage\<close> and the three global lists.  \<open>LABEL_FLAG\<close> and
  \<open>L\<close> are reset at the end of every line and are local to the line here.
\<close>

record stage =
  err_count :: int
  IC_count :: int
  DC_count :: int
  labels :: "l_item list"
  data_image :: "node list"
  instruction_image :: "node list"

definition initial_stage :: stage where
  "initial_stage =
     \<lparr>err_count = 0, IC_count = 0, DC_count = 0, labels = [], data_image = [], instruction_image = []\<rparr>"

text \<open>\<open>CLEANUP_AND_CONTINUE\<close>.\<close>

definition CLEANUP_AND_CONTINUE :: "stage \<Rightarrow> stage" where
  "CLEANUP_AND_CONTINUE s = s\<lparr>err_count := err_count s + 1\<rparr>"

text \<open>A line with \<open>.data\<close> or \<open>.string\<close> in it.\<close>

definition first_stage_data :: "stage \<Rightarrow> string \<Rightarrow> bool \<Rightarrow> string \<Rightarrow> stage result" where
  "first_stage_data s line LABEL_FLAG dataOrString =
     (let label = butlast (first_word_of line)
      in if LABEL_FLAG \<and> isAlreadyLabel (labels s) label then Ok (CLEANUP_AND_CONTINUE s)
         else
           (let s1 = (if LABEL_FLAG
                      then s\<lparr>labels := addLabel (labels s) label (DC_count s) dataOrString\<rparr>
                      else s)
            in case encodeData (data_image s1) line (DC_count s1) dataOrString LABEL_FLAG of
                 Ok (newDC, hptr) \<Rightarrow>
                   if newDC = - 1 then Ok (CLEANUP_AND_CONTINUE (s1\<lparr>data_image := hptr\<rparr>))
                   else Ok (s1\<lparr>data_image := hptr, DC_count := newDC\<rparr>)
               | Regular_error \<Rightarrow> Regular_error
               | Fatal_error \<Rightarrow> Fatal_error
               | Undefined_behaviour \<Rightarrow> Undefined_behaviour))"

text \<open>A line with \<open>.entry\<close> or \<open>.extern\<close> as its first or second word.\<close>

definition first_stage_entry_extern :: "m_item list \<Rightarrow> stage \<Rightarrow> string \<Rightarrow> int \<Rightarrow> string \<Rightarrow> stage" where
  "first_stage_entry_extern hptr s line label_err entryOrExtern =
     (if entryOrExtern \<noteq> [] \<and> hd entryOrExtern = CHR ''1'' then CLEANUP_AND_CONTINUE s
      else if entryOrExtern = ''.extern'' then
        (case addExtern hptr (labels s) line label_err of
           (extern_err, Labelhptr) \<Rightarrow>
             if extern_err = 0 then CLEANUP_AND_CONTINUE s else s\<lparr>labels := Labelhptr\<rparr>)
      else s)"

text \<open>
  An instruction line: with a label, the label is entered with the value \<open>IC + 100\<close>
  and the type \<open>.code\<close> before the instruction is encoded.
\<close>

definition first_stage_encode :: "m_item list \<Rightarrow> stage \<Rightarrow> string \<Rightarrow> bool \<Rightarrow> stage result" where
  "first_stage_encode hptr s line LABEL_FLAG =
     (case encodeInstruction (labels s) (instruction_image s) line LABEL_FLAG (IC_count s) of
        (Regular_error, img) \<Rightarrow> Ok (CLEANUP_AND_CONTINUE (s\<lparr>instruction_image := img\<rparr>))
      | (Ok L, img) \<Rightarrow>
          Ok (s\<lparr>instruction_image := img,
                IC_count := (if isAddressType2Or3 hptr (labels s) line
                             then IC_count s + L - 1 else IC_count s + L)\<rparr>)
      | (r, img) \<Rightarrow> Undefined_behaviour)"

definition first_stage_instruction ::
  "m_item list \<Rightarrow> stage \<Rightarrow> string \<Rightarrow> bool \<Rightarrow> string \<Rightarrow> stage result" where
  "first_stage_instruction hptr s line LABEL_FLAG first_word =
     (if LABEL_FLAG then
        (let second_word = get_second_word line;
             label = butlast (first_word_of line)
         in if isAlreadyLabel (labels s) label then Ok (CLEANUP_AND_CONTINUE s)
            else
              (let s1 = s\<lparr>labels := addLabel (labels s) label (IC_count s + 100) ''.code''\<rparr>
               in if \<not> validInstructionName second_word then Ok (CLEANUP_AND_CONTINUE s1)
                  else first_stage_encode hptr s1 line LABEL_FLAG))
      else if \<not> validInstructionName first_word then Ok (CLEANUP_AND_CONTINUE s)
      else first_stage_encode hptr s line LABEL_FLAG)"

text \<open>One round of the loop of \<open>first_stage\<close>, after the test of the memory limit.\<close>

definition first_stage_line :: "m_item list \<Rightarrow> stage \<Rightarrow> string \<Rightarrow> stage result" where
  "first_stage_line hptr s line =
     (let label_err = isLabel hptr line;
          dataOrString = findDataOrStringWord line;
          entryOrExtern = findEntryOrExternWord line
      in case get_first_word line of
           None \<Rightarrow> Ok s
         | Some first_word \<Rightarrow>
             if first_word = [] then Ok s
             else if hd line = CHR '';'' then Ok s
             else if clearOfMacro hptr line = 0 then Ok (CLEANUP_AND_CONTINUE s)
             else if label_err = 2 then Ok (CLEANUP_AND_CONTINUE s)
             else
               (case dataOrString of
                  Some d \<Rightarrow> first_stage_data s line (label_err = 1) d
                | None \<Rightarrow>
                    (case entryOrExtern of
                       Some e \<Rightarrow> Ok (first_stage_entry_extern hptr s line label_err e)
                     | None \<Rightarrow> first_stage_instruction hptr s line (label_err = 1) first_word)))"

text \<open>
  The loop: before a line is handled, \<open>IC + DC > MEMORY_SIZE\<close> counts an error and
  leaves the loop.  The lines are those \<open>fgets\<close> reads into the buffer of
  \<open>LINE_SIZE\<close> = 81 bytes.
\<close>

definition LINE_SIZE :: nat where
  "LINE_SIZE = 81"

lemma fgets_shorter: "fgets LINE_SIZE text = Some (line, rest) \<Longrightarrow> length rest < length text"
  using fgets_chars_shorter [where n = 80 and s = "text"]
  by (auto simp: fgets_def LINE_SIZE_def split: if_splits)

function read_lines :: "string \<Rightarrow> string list" where
  "read_lines text =
     (case fgets LINE_SIZE text of None \<Rightarrow> [] | Some (line, rest) \<Rightarrow> line # read_lines rest)"
  by pat_completeness auto
termination
  by (relation "measure length") (auto simp: fgets_shorter)

declare read_lines.simps [simp del]

fun first_stage_loop :: "m_item list \<Rightarrow> stage \<Rightarrow> string list \<Rightarrow> stage result" where
  "first_stage_loop hptr s [] = Ok s"
| "first_stage_loop hptr s (line # rest) =
     (if IC_count s + DC_count s > MEMORY_SIZE then Ok (s\<lparr>err_count := err_count s + 1\<rparr>)
      else (case first_stage_line hptr s line of
              Ok s' \<Rightarrow> first_stage_loop hptr s' rest
            | r \<Rightarrow> r))"

text \<open>
  \<open>first_stage\<close> on the text of the \<open>.am\<close> file: 0 (here \<open>Regular_error\<close>) when an
  error was counted, else 1 with the labels rebased by \<open>updateLabels(IC)\<close>.
\<close>

definition first_stage :: "m_item list \<Rightarrow> string \<Rightarrow> stage result" where
  "first_stage hptr text =
     (case first_stage_loop hptr initial_stage (read_lines text) of
        Ok s \<Rightarrow>
          if err_count s > 0 then Regular_error
          else Ok (s\<lparr>labels := updateLabels (IC_count s) (labels s)\<rparr>)
      | r \<Rightarrow> r)"

section \<open>The second stage: the helpers (second\_stage\_func.c)\<close>

text \<open>
  \<open>changeEntryStatus\<close>: the first symbol of that name gets the type \<open>.entry\<close>.
  \<open>addEntry\<close> calls it for a name of the table only (for any other name the source runs
  off the end of the function; the model leaves the table as it is).  \<open>addEntry\<close>: 0
  for a name that is not in the table, else 1.
\<close>

fun changeEntryStatus :: "l_item list \<Rightarrow> string \<Rightarrow> l_item list" where
  "changeEntryStatus [] label_word = []"
| "changeEntryStatus (p # ps) label_word =
     (if label_word = label_name p then p\<lparr>type' := ''.entry''\<rparr> # ps
      else p # changeEntryStatus ps label_word)"

definition addEntry :: "l_item list \<Rightarrow> string \<Rightarrow> int \<times> l_item list" where
  "addEntry Labelhptr label_word =
     (if \<not> isAlreadyLabel Labelhptr label_word then (0, Labelhptr)
      else (1, changeEntryStatus Labelhptr label_word))"

text \<open>
  \<open>check4OperandEntry\<close>: 1 when there is a word after the operand of \<open>.entry\<close>.  The
  source compares the pointer it gets with the literal \<open>""\<close>; equal literals of one
  file are one object, so the test holds exactly when the word was found.
\<close>

definition check4OperandEntry :: "string \<Rightarrow> bool \<Rightarrow> int" where
  "check4OperandEntry line LABEL_FLAG =
     (if LABEL_FLAG then (case get_fourth_word line of Some w \<Rightarrow> 1 | None \<Rightarrow> 0)
      else (case get_third_word line of Some w \<Rightarrow> 1 | None \<Rightarrow> 0))"

definition encodeLabelMila :: "l_item list \<Rightarrow> node list \<Rightarrow> string \<Rightarrow> int \<Rightarrow> node list" where
  "encodeLabelMila Labelhptr hptr operand IC =
     (let labelStatus = getLabelStatus Labelhptr operand;
          Labeladdress = getLabelAddress Labelhptr operand
      in if labelStatus = Some ''.external'' then assignNodeToList hptr 1 IC
         else assignNodeToList hptr (2 OR push_bit 3 (word_of_int Labeladdress)) IC)"

definition LabelWasAlreadyEncoded :: "node list \<Rightarrow> int \<Rightarrow> bool" where
  "LabelWasAlreadyEncoded hptr IC = list_ex (\<lambda>p. address p = IC) hptr"

text \<open>
  \<open>encodeMissingOperand\<close>: the number of words of the line, or -1; with it the
  instruction image and the caller's line buffer, in which \<open>replaceCommas\<close> has
  overwritten commas.  With two operands \<open>encodeLabelMila\<close> is called before
  \<open>LabelWasAlreadyEncoded\<close> is asked, and it returns 1: a label operand gets a new
  node in every case.  For more than two operands the source has no return statement.
\<close>

definition encodeMissingOperand ::
  "l_item list \<Rightarrow> node list \<Rightarrow> string \<Rightarrow> bool \<Rightarrow> int \<Rightarrow> int result \<times> node list \<times> string" where
  "encodeMissingOperand Labelhptr hptr line0 LABEL_FLAG IC0 =
     (let line1 = (if LABEL_FLAG then skipFirstWord line0 else line0);
          before = take (length line0 - length line1) line0
      in case replaceCommas line1 of
           (commas, line2) \<Rightarrow>
             (let buffer = before @ line2;
                  line = skipFirstWord line2;
                  IC = IC0 + 1;
                  L = 1 + findNumOfWords line
              in if line = [] \<or> hd line = CHR 0x0A then (Ok L, hptr, buffer)
                 else
                   (let instruction_length = findNumOfWords line
                    in if instruction_length = 1 then
                         (let operand = first_word_of line;
                              addressing_type = getAddressingType Labelhptr operand
                          in if addressing_type = 1 then
                               (if LabelWasAlreadyEncoded hptr IC then (Ok L, hptr, buffer)
                                else (Ok L, encodeLabelMila Labelhptr hptr operand IC, buffer))
                             else if addressing_type = - 2 then (Regular_error, hptr, buffer)
                             else (Ok L, hptr, buffer))
                       else if instruction_length = 2 then
                         (let first_operand = first_word_of line;
                              second_operand = get_second_word line;
                              first_addressing_type = getAddressingType Labelhptr first_operand;
                              second_addressing_type = getAddressingType Labelhptr second_operand
                          in if (first_addressing_type = 2 \<or> first_addressing_type = 3) \<and>
                                (second_addressing_type = 2 \<or> second_addressing_type = 3)
                             then (Ok L, hptr, buffer)
                             else
                               (let hptr1 = (if first_addressing_type = 1
                                             then encodeLabelMila Labelhptr hptr first_operand IC
                                             else hptr);
                                    hptr2 = (if second_addressing_type = 1
                                             then encodeLabelMila Labelhptr hptr1 second_operand (IC + 1)
                                             else hptr1)
                                in if first_addressing_type = - 2 then (Regular_error, hptr2, buffer)
                                   else if second_addressing_type = - 2 then (Regular_error, hptr2, buffer)
                                   else (Ok L, hptr2, buffer)))
                       else (Undefined_behaviour, hptr, buffer))))"

text \<open>
  \<open>checkRegisters\<close> and \<open>isRegister\<close>, with the \<open>int\<close> values of the C operators
  \<open>==\<close>, \<open>&&\<close> and \<open>||\<close>, bracketed as the source is:
  \<open>(isRegister(second_word) == 1 && isRegister(third_word)) == 1 ||
     (isRegister(third_word) == 1 && isRegister(fourth_word) == 1)\<close>.
\<close>

definition c_eq :: "int \<Rightarrow> int \<Rightarrow> int" where
  "c_eq a b = (if a = b then 1 else 0)"

definition c_and :: "int \<Rightarrow> int \<Rightarrow> int" where
  "c_and a b = (if a \<noteq> 0 \<and> b \<noteq> 0 then 1 else 0)"

definition c_or :: "int \<Rightarrow> int \<Rightarrow> int" where
  "c_or a b = (if a \<noteq> 0 \<or> b \<noteq> 0 then 1 else 0)"

definition isRegister :: "string \<Rightarrow> int" where
  "isRegister word =
     (if word \<in> set [''r0'', ''r1'', ''r2'', ''r3'', ''r4'', ''r5'', ''r6'', ''r7'',
                      ''*r0'', ''*r1'', ''*r2'', ''*r3'', ''*r4'', ''*r5'', ''*r6'', ''*r7'']
      then 1 else 0)"

definition checkRegisters :: "string \<Rightarrow> string \<Rightarrow> string \<Rightarrow> int" where
  "checkRegisters second_word third_word fourth_word =
     (if c_or (c_eq (c_and (c_eq (isRegister second_word) 1) (isRegister third_word)) 1)
              (c_and (c_eq (isRegister third_word) 1) (c_eq (isRegister fourth_word) 1)) \<noteq> 0
      then 1 else 0)"

section \<open>The output files (second\_stage\_func.c)\<close>

text \<open>The conversions \<open>%d\<close>, \<open>%04d\<close> and \<open>%05o\<close> of \<open>fprintf\<close>.\<close>

fun decimal :: "nat \<Rightarrow> string" where
  "decimal n = (if n < 10 then [''0123456789'' ! n]
                else decimal (n div 10) @ [''0123456789'' ! (n mod 10)])"

fun octal :: "nat \<Rightarrow> string" where
  "octal n = (if n < 8 then [''01234567'' ! n]
              else octal (n div 8) @ [''01234567'' ! (n mod 8)])"

declare decimal.simps [simp del] octal.simps [simp del]

definition zero_pad :: "nat \<Rightarrow> string \<Rightarrow> string" where
  "zero_pad width digits = replicate (width - length digits) (CHR ''0'') @ digits"

definition printf_d :: "int \<Rightarrow> string" where
  "printf_d i = (if i < 0 then CHR ''-'' # decimal (nat (- i)) else decimal (nat i))"

definition printf_04d :: "int \<Rightarrow> string" where
  "printf_04d i = (if i < 0 then CHR ''-'' # zero_pad 3 (decimal (nat (- i)))
                   else zero_pad 4 (decimal (nat i)))"

definition printf_05o :: "nat \<Rightarrow> string" where
  "printf_05o n = zero_pad 5 (octal n)"

text \<open>
  \<open>loadPCMemory\<close>: \<open>memory_image\<close> is an array of \<open>MEMORY_SIZE\<close> = 4096 cells,
  all zero at the start of the program; here a function of the index.  The source stores
  \<open>memory_image[AC+100]\<close> without a test of the index: a store at an index that is not
  below \<open>MEMORY_SIZE\<close> is outside the array, \<open>Undefined_behaviour\<close>.  For every node
  \<open>p\<close> of the instruction image, in the order of the list: when its address is not
  \<open>AC\<close>, the first node of address \<open>AC\<close> is stored if there is one; the
  \<open>if (foundNode = 0)\<close> after the search assigns 0 and never leaves the loop.  The data
  image follows.  The result is the memory and \<open>AC\<close>.
\<close>

fun load_instructions ::
  "node list \<Rightarrow> node list \<Rightarrow> int \<Rightarrow> (int \<Rightarrow> mila) \<Rightarrow> ((int \<Rightarrow> mila) \<times> int) result" where
  "load_instructions Instruction_hptr [] AC memory_image = Ok (memory_image, AC)"
| "load_instructions Instruction_hptr (p # ps) AC memory_image =
     (if address p \<noteq> AC then
        (case find (\<lambda>t. address t = AC) Instruction_hptr of
           Some t \<Rightarrow>
             if AC + 100 < MEMORY_SIZE
             then load_instructions Instruction_hptr ps (AC + 1) (memory_image (AC + 100 := cell t))
             else Undefined_behaviour
         | None \<Rightarrow> load_instructions Instruction_hptr ps (AC + 1) memory_image)
      else if AC + 100 < MEMORY_SIZE
        then load_instructions Instruction_hptr ps (AC + 1) (memory_image (AC + 100 := cell p))
        else Undefined_behaviour)"

fun load_data :: "node list \<Rightarrow> int \<Rightarrow> (int \<Rightarrow> mila) \<Rightarrow> ((int \<Rightarrow> mila) \<times> int) result" where
  "load_data [] AC memory_image = Ok (memory_image, AC)"
| "load_data (t # ts) AC memory_image =
     (if AC + 100 < MEMORY_SIZE
      then load_data ts (AC + 1) (memory_image (AC + 100 := cell t))
      else Undefined_behaviour)"

definition loadPCMemory :: "node list \<Rightarrow> node list \<Rightarrow> (int \<Rightarrow> mila) \<Rightarrow> (int \<Rightarrow> mila) result" where
  "loadPCMemory Instruction_hptr Data_hptr memory_image =
     (case load_instructions Instruction_hptr Instruction_hptr 0 memory_image of
        Ok (memory1, AC) \<Rightarrow>
          (case load_data Data_hptr AC memory1 of
             Ok (memory2, AC2) \<Rightarrow> Ok memory2
           | Regular_error \<Rightarrow> Regular_error
           | Fatal_error \<Rightarrow> Fatal_error
           | Undefined_behaviour \<Rightarrow> Undefined_behaviour)
      | Regular_error \<Rightarrow> Regular_error
      | Fatal_error \<Rightarrow> Fatal_error
      | Undefined_behaviour \<Rightarrow> Undefined_behaviour)"

text \<open>
  \<open>write2Object\<close>: the line of the two counts, then one line for each of the
  \<open>total_cells\<close> cells from address 100 on; the word written is
  \<open>memory_image[i + 100].MILA & 077777\<close>.  \<open>object_word\<close> is that word, and
  \<open>object_words\<close> the list of the words of the body in the order of the lines.  The
  loop reads the cells 100 to \<open>total_cells\<close> + 99 without a test of the index: with
  more than \<open>MEMORY_SIZE\<close> - 100 cells it reads outside the array,
  \<open>Undefined_behaviour\<close>.
\<close>

definition object_word :: "(int \<Rightarrow> mila) \<Rightarrow> nat \<Rightarrow> mila" where
  "object_word memory_image i = memory_image (int i + 100) AND 0x7FFF"

definition object_line :: "(int \<Rightarrow> mila) \<Rightarrow> nat \<Rightarrow> string" where
  "object_line memory_image i =
     printf_04d (int i + 100) @ '' '' @ printf_05o (unat (object_word memory_image i)) @ ''\<newline>''"

definition object_words :: "(int \<Rightarrow> mila) \<Rightarrow> nat \<Rightarrow> mila list" where
  "object_words memory_image total_cells = map (object_word memory_image) [0..<total_cells]"

definition write2Object :: "node list \<Rightarrow> node list \<Rightarrow> (int \<Rightarrow> mila) \<Rightarrow> string result" where
  "write2Object Instruction_hptr Data_hptr memory_image =
     (let sum_instruction_cell = length Instruction_hptr;
          sum_data_cell = length Data_hptr;
          total_cells = sum_instruction_cell + sum_data_cell
      in if int total_cells + 100 > MEMORY_SIZE then Undefined_behaviour
         else Ok (printf_d (int sum_instruction_cell) @ '' '' @ printf_d (int sum_data_cell) @
                  ''\<newline>'' @ concat (map (object_line memory_image) [0..<total_cells])))"

text \<open>
  \<open>write2Ent\<close>: the loop over the label table; a line \<open>"%s %d\\n"\<close> for every symbol
  of type \<open>.entry\<close>.
\<close>

fun write2Ent :: "l_item list \<Rightarrow> string" where
  "write2Ent [] = []"
| "write2Ent (p # ps) =
     (if type' p = ''.entry''
      then label_name p @ '' '' @ printf_d (value' p) @ ''\<newline>'' @ write2Ent ps
      else write2Ent ps)"

fun entryLabelsExists :: "l_item list \<Rightarrow> bool" where
  "entryLabelsExists [] = False"
| "entryLabelsExists (p # ps) = (if type' p = ''.entry'' then True else entryLabelsExists ps)"

text \<open>
  The files \<open>createOutput\<close> writes, after \<open>loadPCMemory\<close>: the object file, and the
  entries file when a symbol of type \<open>.entry\<close> exists.  (The externals file is not part
  of this model.)
\<close>

record output_files =
  object_file :: string
  entries_file :: "string option"
  memory :: "int \<Rightarrow> mila"

definition createOutput :: "l_item list \<Rightarrow> node list \<Rightarrow> node list \<Rightarrow> output_files result" where
  "createOutput Labelhptr Instruction_hptr Data_hptr =
     (case loadPCMemory Instruction_hptr Data_hptr (\<lambda>i. 0) of
        Ok memory_image \<Rightarrow>
          (case write2Object Instruction_hptr Data_hptr memory_image of
             Ok obj \<Rightarrow>
               Ok \<lparr>object_file = obj,
                   entries_file = (if entryLabelsExists Labelhptr then Some (write2Ent Labelhptr)
                                   else None),
                   memory = memory_image\<rparr>
           | Regular_error \<Rightarrow> Regular_error
           | Fatal_error \<Rightarrow> Fatal_error
           | Undefined_behaviour \<Rightarrow> Undefined_behaviour)
      | Regular_error \<Rightarrow> Regular_error
      | Fatal_error \<Rightarrow> Fatal_error
      | Undefined_behaviour \<Rightarrow> Undefined_behaviour)"

section \<open>The second stage (second\_stage.c)\<close>

text \<open>
  One round of the loop: the state is the state of the first stage with \<open>err_count\<close>
  and \<open>IC\<close> started again at 0.
\<close>

definition second_stage_line :: "m_item list \<Rightarrow> stage \<Rightarrow> string \<Rightarrow> stage result" where
  "second_stage_line hptr s line =
     (case get_first_word line of
        None \<Rightarrow> Ok s
      | Some first_word \<Rightarrow>
          if first_word = [] then Ok s
          else if hd line = CHR '';'' then Ok s
          else
            (let word = butlast first_word;
                 LABEL_FLAG = (isAlreadyLabel (labels s) word \<or> isLabel hptr line = 3);
                 word_check = (if LABEL_FLAG then get_second_word line else first_word_of line)
             in if word_check = ''.data'' \<or> word_check = ''.string'' \<or> word_check = ''.extern''
                then Ok s
                else if word_check = ''.entry'' then
                  (let label_word = (if LABEL_FLAG then word_text (get_third_word line)
                                     else get_second_word line)
                   in case addEntry (labels s) label_word of
                        (entryErr, Labelhptr) \<Rightarrow>
                          if entryErr = 0 then Ok (s\<lparr>err_count := err_count s + 1\<rparr>)
                          else if check4OperandEntry line LABEL_FLAG = 1
                            then Ok (s\<lparr>labels := Labelhptr, err_count := err_count s + 1\<rparr>)
                          else Ok (s\<lparr>labels := Labelhptr\<rparr>))
                else
                  (case encodeMissingOperand (labels s) (instruction_image s) line LABEL_FLAG
                          (IC_count s) of
                     (Regular_error, img, buffer) \<Rightarrow>
                       Ok (s\<lparr>instruction_image := img, err_count := err_count s + 1\<rparr>)
                   | (Ok L, img, buffer) \<Rightarrow>
                       Ok (s\<lparr>instruction_image := img,
                             IC_count := (if isAddressType2Or3 hptr (labels s) buffer
                                          then IC_count s + L - 1 else IC_count s + L)\<rparr>)
                   | (r, img, buffer) \<Rightarrow> Undefined_behaviour)))"

fun second_stage_loop :: "m_item list \<Rightarrow> stage \<Rightarrow> string list \<Rightarrow> stage result" where
  "second_stage_loop hptr s [] = Ok s"
| "second_stage_loop hptr s (line # rest) =
     (case second_stage_line hptr s line of
        Ok s' \<Rightarrow> second_stage_loop hptr s' rest
      | r \<Rightarrow> r)"

text \<open>
  \<open>second_stage\<close> on the text of the \<open>.am\<close> file and the tables the first stage
  left: 0 when an error was counted, else \<open>createOutput\<close>.
\<close>

definition second_stage :: "m_item list \<Rightarrow> stage \<Rightarrow> string \<Rightarrow> output_files result" where
  "second_stage hptr s1 text =
     (case second_stage_loop hptr (s1\<lparr>err_count := 0, IC_count := 0\<rparr>) (read_lines text) of
        Ok s \<Rightarrow>
          if err_count s > 0 then Regular_error
          else createOutput (labels s) (instruction_image s) (data_image s)
      | Regular_error \<Rightarrow> Regular_error
      | Fatal_error \<Rightarrow> Fatal_error
      | Undefined_behaviour \<Rightarrow> Undefined_behaviour)"

section \<open>The macro pass (pre\_assembler.c)\<close>

definition isOnlyWord :: "string \<Rightarrow> bool" where
  "isOnlyWord line = (skipFirstWord line = [])"

definition onlyTwoWords :: "string \<Rightarrow> bool" where
  "onlyTwoWords line =
     (let l = skipFirstWord line
      in if l = [] then False
         else dropWhile isspace (dropWhile (\<lambda>c. \<not> isspace c) l) = [])"

definition validMacroName :: "string \<Rightarrow> bool" where
  "validMacroName name =
     (name \<notin> set (instructionWords @ [''.data'', ''.string'', ''.entry'', ''.extern'']))"

text \<open>
  The state of the loop of \<open>pre_assembler\<close>: the macro table, \<open>MACRO_FLAG\<close>,
  \<open>MACRO_NAME\<close>, \<open>error0Count\<close> and the text written to the \<open>.am\<close> file so far.
  \<open>MACRO_NAME\<close> points into the buffer of \<open>get_second_word\<close> and is not initialised
  before the first \<open>macr\<close> line with two words: \<open>None\<close>.
\<close>

record pre_state =
  macros :: "m_item list"
  MACRO_FLAG :: bool
  MACRO_NAME :: "string option"
  error0Count :: int
  am_file :: string

text \<open>
  One line of the source, as \<open>fgets\<close> read it into the buffer of 83 bytes; a line of
  82 characters is too long and is handled by the loop below.  \<open>Fatal_error\<close> is the
  return code 2 for a line of a macro body whose macro is not in the table.
\<close>

definition pre_assembler_line :: "pre_state \<Rightarrow> string \<Rightarrow> pre_state result" where
  "pre_assembler_line s line =
     (if hd line = CHR '';'' then Ok s
      else
        (case get_first_word line of
           None \<Rightarrow> Ok s
         | Some word \<Rightarrow>
             if isMacro (macros s) word then
               (if \<not> isOnlyWord line then Ok (s\<lparr>error0Count := error0Count s + 1\<rparr>)
                else Ok (s\<lparr>am_file := am_file s @ word_text (getMacro (macros s) word)\<rparr>))
             else if word = ''macr'' then
               (if \<not> onlyTwoWords line then Ok (s\<lparr>error0Count := error0Count s + 1\<rparr>)
                else
                  (let name = get_second_word line;
                       s1 = s\<lparr>MACRO_NAME := Some name\<rparr>
                   in if 31 < length name then Ok (s1\<lparr>error0Count := error0Count s + 1\<rparr>)
                      else if \<not> validMacroName name then Ok (s1\<lparr>error0Count := error0Count s + 1\<rparr>)
                      else if isMacro (macros s) name then Ok (s1\<lparr>error0Count := error0Count s + 1\<rparr>)
                      else Ok (s1\<lparr>MACRO_FLAG := True, macros := addMacro (macros s) name\<rparr>)))
             else if MACRO_FLAG s \<and> word \<noteq> ''endmacr'' then
               (case MACRO_NAME s of
                  None \<Rightarrow> Undefined_behaviour
                | Some name \<Rightarrow>
                    (case addMacroContent (macros s) line name of
                       None \<Rightarrow> Fatal_error
                     | Some hptr \<Rightarrow> Ok (s\<lparr>macros := hptr\<rparr>)))
             else if word = ''endmacr'' \<and> isOnlyWord line then
               (case MACRO_NAME s of
                  None \<Rightarrow> Undefined_behaviour
                | Some name \<Rightarrow> Ok (s\<lparr>MACRO_FLAG := False, MACRO_NAME := Some []\<rparr>))
             else Ok (s\<lparr>am_file := am_file s @ line\<rparr>)))"

text \<open>
  The loop: \<open>fgets\<close> reads at most 82 characters; when \<open>line[81]\<close> is set, the line
  is too long, an error is counted and the characters up to and including the next newline
  are read and dropped.
\<close>

lemma fgets_83_shorter: "fgets 83 fp = Some (line, rest) \<Longrightarrow> length rest < length fp"
  using fgets_chars_shorter [where n = 82 and s = fp]
  by (auto simp: fgets_def split: if_splits)

function pre_assembler_loop :: "pre_state \<Rightarrow> string \<Rightarrow> pre_state result" where
  "pre_assembler_loop s fp =
     (case fgets 83 fp of
        None \<Rightarrow> Ok s
      | Some (line, rest) \<Rightarrow>
          if length line = 82
          then pre_assembler_loop (s\<lparr>error0Count := error0Count s + 1\<rparr>)
                 (drop 1 (dropWhile (\<lambda>c. c \<noteq> CHR 0x0A) rest))
          else (case pre_assembler_line s line of
                  Ok s' \<Rightarrow> pre_assembler_loop s' rest
                | r \<Rightarrow> r))"
  by pat_completeness auto
termination
proof (relation "measure (\<lambda>(s, fp). length fp)", goal_cases)
  case 1
  show ?case by simp
next
  case (2 s fp x line rest)
  then have "fgets 83 fp = Some (line, rest)" by simp
  then have "length rest < length fp" by (rule fgets_83_shorter)
  moreover have "length (drop 1 (dropWhile (\<lambda>c. c \<noteq> CHR 0x0A) rest)) \<le> length rest"
    using length_dropWhile_le [of "\<lambda>c. c \<noteq> CHR 0x0A" rest] by simp
  ultimately show ?case by simp
next
  case (3 s fp x line rest s')
  then have "fgets 83 fp = Some (line, rest)" by simp
  then have "length rest < length fp" by (rule fgets_83_shorter)
  then show ?case by simp
qed

declare pre_assembler_loop.simps [simp del]

text \<open>
  \<open>pre_assembler\<close> on the text of the source file: 0 when an error was counted, else
  the macro table and the text of the \<open>.am\<close> file.
\<close>

definition pre_assembler :: "m_item list \<Rightarrow> string \<Rightarrow> (m_item list \<times> string) result" where
  "pre_assembler hptr fp =
     (case pre_assembler_loop
             \<lparr>macros = hptr, MACRO_FLAG = False, MACRO_NAME = None, error0Count = 0, am_file = []\<rparr> fp of
        Ok s \<Rightarrow> if error0Count s > 0 then Regular_error else Ok (macros s, am_file s)
      | Regular_error \<Rightarrow> Regular_error
      | Fatal_error \<Rightarrow> Fatal_error
      | Undefined_behaviour \<Rightarrow> Undefined_behaviour)"

section \<open>A source file through the three passes (main.c)\<close>

text \<open>
  The body of the loop of \<open>main\<close> for one source file, with the tables empty as
  \<open>main\<close> leaves them between two files.
\<close>

definition assemble :: "string \<Rightarrow> output_files result" where
  "assemble source =
     (case pre_assembler [] source of
        Ok (hptr, am) \<Rightarrow>
          (case first_stage hptr am of
             Ok s \<Rightarrow> second_stage hptr s am
           | Regular_error \<Rightarrow> Regular_error
           | Fatal_error \<Rightarrow> Fatal_error
           | Undefined_behaviour \<Rightarrow> Undefined_behaviour)
      | Regular_error \<Rightarrow> Regular_error
      | Fatal_error \<Rightarrow> Fatal_error
      | Undefined_behaviour \<Rightarrow> Undefined_behaviour)"

section \<open>Register operands, in the words of the specification\<close>

text \<open>
  The specification names the operand forms: addressing type 2 is \<open>*rN\<close> (register
  indirect), addressing type 3 is \<open>rN\<close> (register direct), with \<open>N\<close> from 0 to 7.
  \<open>register_operand\<close> says that a word has one of the two forms; it is the
  specification's side of the comparison with \<open>checkRegisters\<close>.
\<close>

definition register_operand :: "string \<Rightarrow> bool" where
  "register_operand w = (\<exists>n \<in> set ''01234567''. w = ''r'' @ [n] \<or> w = ''*r'' @ [n])"

section \<open>The lines the macro pass writes\<close>

text \<open>
  A line as \<open>fgets\<close> reads it into the buffer of the macro pass, and as the pass run
  with an empty macro table and outside a macro definition writes it to the \<open>.am\<close>
  file: at most 81 characters with no newline before the last one and no NUL, not a
  comment, the first word shorter than the buffer of \<open>get_first_word\<close>, not \<open>macr\<close>,
  and not \<open>endmacr\<close> alone on its line.  \<open>kept_lines ls\<close>: every line of \<open>ls\<close> is
  such a line, and every line but the last ends with a newline.
\<close>

definition kept_line :: "string \<Rightarrow> bool" where
  "kept_line l =
     (l \<noteq> [] \<and> length l \<le> 81 \<and> CHR 0x0A \<notin> set (butlast l) \<and> CHR 0x00 \<notin> set l \<and>
      hd l \<noteq> CHR '';'' \<and> length (first_word_of l) < 81 \<and> first_word_of l \<noteq> ''macr'' \<and>
      \<not> (first_word_of l = ''endmacr'' \<and> isOnlyWord l))"

definition kept_lines :: "string list \<Rightarrow> bool" where
  "kept_lines ls = (list_all kept_line ls \<and> list_all (\<lambda>l. last l = CHR 0x0A) (butlast ls))"

text \<open>
  \<open>whole_lines t\<close>: the text \<open>t\<close> is made of such lines, each with its newline.  The
  body of a macro and the \<open>.am\<close> file before the last line of the source are such texts.
\<close>

definition whole_lines :: "string \<Rightarrow> bool" where
  "whole_lines t =
     (\<exists>ls. t = concat ls \<and> list_all kept_line ls \<and> list_all (\<lambda>l. last l = CHR 0x0A) ls)"

section \<open>Rebasing the symbols after the first stage\<close>

lemma updateLabels_length: "length (updateLabels IC ps) = length ps"
  by (induction ps) auto

lemma updateLabels_nth:
  "i < length ps \<Longrightarrow>
   updateLabels IC ps ! i =
     (if type' (ps ! i) = ''.data'' \<or> type' (ps ! i) = ''.string''
      then (ps ! i)\<lparr>value' := value' (ps ! i) + (IC + 100)\<rparr> else ps ! i)"
proof (induction ps arbitrary: i)
  case Nil
  then show ?case by simp
next
  case (Cons p ps)
  then show ?case by (cases i) auto
qed

lemma first_stage_code_and_data_label:
  "first_stage [] ''stop\<newline>L: stop\<newline>X: .data 5\<newline>'' =
     Ok \<lparr>err_count = 0, IC_count = 2, DC_count = 1,
         labels = [\<lparr>label_name = ''L'', value' = 101, type' = ''.code''\<rparr>,
                   \<lparr>label_name = ''X'', value' = 102, type' = ''.data''\<rparr>],
         data_image = [\<lparr>cell = 5, address = 0\<rparr>],
         instruction_image = [\<lparr>cell = 30724, address = 0\<rparr>, \<lparr>cell = 30724, address = 1\<rparr>]\<rparr>"
  by code_simp

text \<open>
  C3, as the code has it.  \<open>updateLabels IC\<close> keeps the length and order of the table and
  the name and type of every symbol; it adds \<open>IC + 100\<close> to the value of every symbol
  of type \<open>.data\<close> or \<open>.string\<close> and leaves the value of every other symbol as it
  is, a \<open>.code\<close> symbol included.  A code label has the load base in its value from the
  start: \<open>first_stage\<close> enters it as \<open>IC + 100\<close>.  In the three-line program the
  label \<open>L\<close> of the second instruction ends as 101 and the data label \<open>X\<close> as
  0 + (2 + 100).
\<close>

theorem C3_updateLabels:
  "length (updateLabels IC ps) = length ps \<and>
   (\<forall>i < length ps.
      label_name (updateLabels IC ps ! i) = label_name (ps ! i) \<and>
      type' (updateLabels IC ps ! i) = type' (ps ! i) \<and>
      value' (updateLabels IC ps ! i) =
        (if type' (ps ! i) = ''.data'' \<or> type' (ps ! i) = ''.string''
         then value' (ps ! i) + (IC + 100) else value' (ps ! i))) \<and>
   first_stage [] ''stop\<newline>L: stop\<newline>X: .data 5\<newline>'' =
     Ok \<lparr>err_count = 0, IC_count = 2, DC_count = 1,
         labels = [\<lparr>label_name = ''L'', value' = 101, type' = ''.code''\<rparr>,
                   \<lparr>label_name = ''X'', value' = 102, type' = ''.data''\<rparr>],
         data_image = [\<lparr>cell = 5, address = 0\<rparr>],
         instruction_image = [\<lparr>cell = 30724, address = 0\<rparr>, \<lparr>cell = 30724, address = 1\<rparr>]\<rparr>"
  by (simp add: updateLabels_length updateLabels_nth first_stage_code_and_data_label)

theorem C3_updateLabels_witness:
  "(1::nat) < length [\<lparr>label_name = ''L'', value' = 101, type' = ''.code''\<rparr>,
                      \<lparr>label_name = ''X'', value' = 0, type' = ''.data''\<rparr>] \<and>
   value' (updateLabels 2 [\<lparr>label_name = ''L'', value' = 101, type' = ''.code''\<rparr>,
                           \<lparr>label_name = ''X'', value' = 0, type' = ''.data''\<rparr>] ! 1) = 102 \<and>
   value' (updateLabels 2 [\<lparr>label_name = ''L'', value' = 101, type' = ''.code''\<rparr>,
                           \<lparr>label_name = ''X'', value' = 0, type' = ''.data''\<rparr>] ! 0) = 101"
  using C3_updateLabels [of 2 "[\<lparr>label_name = ''L'', value' = 101, type' = ''.code''\<rparr>,
                                \<lparr>label_name = ''X'', value' = 0, type' = ''.data''\<rparr>]"]
  by simp

text \<open>
  C3 as the claim states it fails: the rebase adds nothing to a code label.  The label
  \<open>MAIN\<close> of the first instruction has the value 100 before and after \<open>updateLabels\<close>,
  not 200.
\<close>

theorem C3_counterexample:
  "updateLabels 4 [\<lparr>label_name = ''MAIN'', value' = 100, type' = ''.code''\<rparr>] =
     [\<lparr>label_name = ''MAIN'', value' = 100, type' = ''.code''\<rparr>] \<and>
   value' (hd (updateLabels 4 [\<lparr>label_name = ''MAIN'', value' = 100, type' = ''.code''\<rparr>])) \<noteq> 100 + 100"
  by simp

section \<open>Encoding an instruction with two register operands\<close>

text \<open>
  C6.  The one-line program \<open>mov r3, r5\<close> makes exactly two instruction words and
  leaves \<open>IC\<close> at 2.  The first is the information word: opcode 0 in bits 14-11, bit 10
  (source addressing type 3) and bit 6 (target addressing type 3) the only addressing
  bits, and \<open>A\<close> of \<open>ARE\<close>.  The second is the one word of both registers: 3 in bits
  8-6, 5 in bits 5-3, and \<open>A\<close>.
\<close>

theorem C6_mov_r3_r5:
  "first_stage [] ''mov r3, r5\<newline>'' =
     Ok \<lparr>err_count = 0, IC_count = 2, DC_count = 0, labels = [], data_image = [],
         instruction_image = [\<lparr>cell = 1092, address = 0\<rparr>, \<lparr>cell = 236, address = 1\<rparr>]\<rparr> \<and>
   (1092 :: mila) = push_bit 11 0 OR push_bit 10 1 OR push_bit 6 1 OR push_bit 2 1 \<and>
   (236 :: mila) = push_bit 6 3 OR push_bit 3 5 OR push_bit 2 1"
proof -
  have "first_stage [] ''mov r3, r5\<newline>'' =
     Ok \<lparr>err_count = 0, IC_count = 2, DC_count = 0, labels = [], data_image = [],
         instruction_image = [\<lparr>cell = 1092, address = 0\<rparr>, \<lparr>cell = 236, address = 1\<rparr>]\<rparr>"
    by code_simp
  then show ?thesis by simp
qed

section \<open>Immediate operands\<close>

lemma bit_mila_7: "bit (7::mila) n \<longleftrightarrow> n < 3"
proof -
  have "(7::mila) = mask 3" by (simp add: mask_eq_exp_minus_1)
  then have "bit (7::mila) n = bit (mask 3 :: mila) n" by simp
  also have "\<dots> \<longleftrightarrow> n < 3"
    by (auto simp only: bit_mask_iff possible_bit_word len_bit0 len_num1
          mult_numeral_1_right numeral_times_numeral)
  finally show ?thesis .
qed

lemma bit_mila_4: "bit (4::mila) n \<longleftrightarrow> n = 2"
proof -
  have "(4::mila) = 2 ^ 2" by simp
  then have "bit (4::mila) n = bit (2 ^ 2 :: mila) n" by simp
  also have "\<dots> \<longleftrightarrow> n = 2" by (simp only: bit_exp_iff) (auto simp add: possible_bit_word)
  finally show ?thesis .
qed

lemma immediate_ARE: "(4 OR push_bit 3 x :: mila) AND 7 = 4"
proof (rule bit_word_eqI)
  fix n :: nat
  assume "n < LENGTH(16)"
  show "bit ((4 OR push_bit 3 x) AND 7) n = bit (4::mila) n"
    unfolding bit_and_iff bit_or_iff bit_push_bit_iff bit_mila_7 bit_mila_4 by auto
qed

lemma immediate_field:
  "take_bit 12 (drop_bit 3 (4 OR push_bit 3 (word_of_int n) :: mila)) = take_bit 12 (word_of_int n)"
  by (rule bit_word_eqI)
    (auto simp: bit_take_bit_iff bit_drop_bit_eq bit_or_iff bit_push_bit_iff bit_mila_4)

lemma immediate_field_signed:
  "- 2048 \<le> n \<Longrightarrow> n \<le> 2047 \<Longrightarrow>
   signed_take_bit 11 (uint (take_bit 12 (drop_bit 3 (4 OR push_bit 3 (word_of_int n) :: mila)))) = n"
  apply (simp only: immediate_field)
  apply (simp add: unsigned_take_bit_eq uint_word_of_int_eq signed_take_bit_take_bit)
  apply (simp add: signed_take_bit_int_eq_self)
  done

lemma immediate_field_unsigned:
  "0 \<le> n \<Longrightarrow> n \<le> 4095 \<Longrightarrow>
   uint (take_bit 12 (drop_bit 3 (4 OR push_bit 3 (word_of_int n) :: mila))) = n"
  apply (simp only: immediate_field)
  apply (simp add: unsigned_take_bit_eq uint_word_of_int_eq take_bit_int_eq_self)
  done

text \<open>
  \<open>atoi\<close> reads back what \<open>%d\<close> prints for every number that fits an \<open>int\<close>.
\<close>

lemma digit_char:
  "d < 10 \<Longrightarrow> isdigit (''0123456789'' ! d) \<and> int (of_char (''0123456789'' ! d)) - 48 = int d"
proof -
  assume "d < 10"
  then have "d \<in> {0, 1, 2, 3, 4, 5, 6, 7, 8, 9}" by auto
  then show ?thesis by (auto simp: isdigit_def)
qed

lemma isdigit_not_sign: "isdigit c \<Longrightarrow> \<not> isspace c \<and> c \<noteq> CHR ''-'' \<and> c \<noteq> CHR ''+''"
  by (auto simp: isdigit_def isspace_def)

lemma atoi_digits_append:
  "list_all isdigit xs \<Longrightarrow> atoi_digits acc (xs @ ys) = atoi_digits (atoi_digits acc xs) ys"
  by (induction xs arbitrary: acc) auto

lemma decimal_isdigit: "list_all isdigit (decimal n) \<and> decimal n \<noteq> []"
proof (induction n rule: decimal.induct)
  case (1 n)
  show ?case
  proof (cases "n < 10")
    case True
    then show ?thesis using digit_char [of n] by (subst decimal.simps, subst decimal.simps) simp
  next
    case False
    have "n mod 10 < 10" by simp
    from digit_char [OF this] 1 [OF False] False show ?thesis
      by (subst decimal.simps, subst (2) decimal.simps) simp
  qed
qed

lemma atoi_digits_decimal: "atoi_digits 0 (decimal n) = int n"
proof (induction n rule: decimal.induct)
  case (1 n)
  show ?case
  proof (cases "n < 10")
    case True
    then show ?thesis using digit_char [of n] by (subst decimal.simps) simp
  next
    case False
    have "n mod 10 < 10" by simp
    from digit_char [OF this] have d: "isdigit (''0123456789'' ! (n mod 10))"
      "int (of_char (''0123456789'' ! (n mod 10))) - 48 = int (n mod 10)" by simp_all
    have "atoi_digits 0 (decimal n) =
          atoi_digits (atoi_digits 0 (decimal (n div 10))) [''0123456789'' ! (n mod 10)]"
      using False decimal_isdigit [of "n div 10"]
      by (subst decimal.simps) (simp add: atoi_digits_append)
    also have "\<dots> = int (n div 10) * 10 + int (n mod 10)"
      using 1 [OF False] d by simp
    also have "\<dots> = int (n div 10 * 10 + n mod 10)"
      by (simp only: of_nat_add of_nat_mult of_nat_numeral)
    also have "\<dots> = int n" by (simp only: div_mult_mod_eq)
    finally show ?thesis .
  qed
qed

lemma strtol_printf_d:
  "- LONG_MAX - 1 \<le> n \<Longrightarrow> n \<le> LONG_MAX \<Longrightarrow> strtol (printf_d n) = n"
proof -
  assume b: "- LONG_MAX - 1 \<le> n" "n \<le> LONG_MAX"
  show ?thesis
  proof (cases "n < 0")
    case True
    then show ?thesis using b atoi_digits_decimal [of "nat (- n)"]
      by (simp add: strtol_def printf_d_def isspace_def Let_def)
  next
    case False
    obtain c cs where d: "decimal (nat n) = c # cs"
      using decimal_isdigit [of "nat n"] by (cases "decimal (nat n)") auto
    with decimal_isdigit [of "nat n"] have "isdigit c" by simp
    from isdigit_not_sign [OF this] d False b atoi_digits_decimal [of "nat n"]
    show ?thesis by (simp add: strtol_def printf_d_def Let_def)
  qed
qed

lemma atoi_printf_d:
  "- 2147483648 \<le> n \<Longrightarrow> n \<le> 2147483647 \<Longrightarrow> atoi (printf_d n) = n"
proof -
  assume b: "- 2147483648 \<le> n" "n \<le> 2147483647"
  then have "strtol (printf_d n) = n" by (intro strtol_printf_d) (simp_all add: LONG_MAX_def)
  with b show ?thesis by (simp add: atoi_def)
qed

text \<open>
  Outside the \<open>int\<close>: \<open>#2147483648\<close> is read as -2147483648 and accepted, and
  \<open>#4294967301\<close> is read as 5.
\<close>

lemma immediate_of_int:
  "atoi ''2147483648'' = - 2147483648 \<and> atoi ''4294967301'' = 5 \<and> atoi ''-2049'' = - 2049 \<and>
   encodeMila [] [] 0 ''#2147483648'' 1 ''target'' = (1, [\<lparr>cell = 4, address = 1\<rparr>]) \<and>
   encodeMila [] [] 0 ''#4294967301'' 1 ''target'' = (1, [\<lparr>cell = 44, address = 1\<rparr>])"
proof -
  have a: "atoi ''2147483648'' = - 2147483648" "atoi ''4294967301'' = 5" "atoi ''-2049'' = - 2049"
    by code_simp+
  have w: "(4 OR push_bit 3 (word_of_int (- 2147483648)) :: mila) = 4"
    "(4 OR push_bit 3 (word_of_int 5) :: mila) = 44"
    by simp_all
  show ?thesis
    by (simp add: a encodeMila_def assignNodeToList_def Let_def w)
qed

text \<open>
  C2, as the code has it.  \<open>encodeMila\<close> reads the number of the operand \<open>#N\<close>
  (addressing type 0) with \<open>atoi\<close> and tests the upper bound 4095 only.  For every
  \<open>N\<close> from -2048 up to the largest \<open>int\<close>, \<open>#N\<close> is refused exactly when
  \<open>N > 4095\<close>, so \<open>#2048\<close> is accepted and \<open>#4096\<close> is the first number
  refused; an accepted \<open>N\<close> is stored in one operand word with \<open>A\<close> of \<open>ARE\<close>
  whose bits 14-3 are the low 12 bits of \<open>N\<close>: every \<open>N\<close> of -2048..2047 in two's
  complement, every \<open>N\<close> of 0..4095 as it is.  The first part says the same of any
  text after \<open>#\<close> in terms of the \<open>int\<close> that \<open>atoi\<close> reads.  (Below -2048 the
  source has no test at all; that range is left out here.)
\<close>

theorem C2_immediate_operand:
  "(- 2048 \<le> atoi number \<longrightarrow>
      encodeMila Labelhptr hptr 0 (CHR ''#'' # number) IC operandType =
        (if atoi number > 4095 then (2, hptr)
         else (1, hptr @ [\<lparr>cell = 4 OR push_bit 3 (word_of_int (atoi number)), address = IC\<rparr>]))) \<and>
   (- 2048 \<le> n \<and> n \<le> 2147483647 \<longrightarrow>
      atoi (printf_d n) = n \<and>
      encodeMila Labelhptr hptr 0 (CHR ''#'' # printf_d n) IC operandType =
        (if n > 4095 then (2, hptr)
         else (1, hptr @ [\<lparr>cell = 4 OR push_bit 3 (word_of_int n), address = IC\<rparr>]))) \<and>
   (4 OR push_bit 3 (word_of_int n) :: mila) AND 7 = 4 \<and>
   take_bit 12 (drop_bit 3 (4 OR push_bit 3 (word_of_int n) :: mila)) = take_bit 12 (word_of_int n) \<and>
   (- 2048 \<le> n \<and> n \<le> 2047 \<longrightarrow>
      signed_take_bit 11 (uint (take_bit 12 (drop_bit 3 (4 OR push_bit 3 (word_of_int n) :: mila)))) = n) \<and>
   (0 \<le> n \<and> n \<le> 4095 \<longrightarrow>
      uint (take_bit 12 (drop_bit 3 (4 OR push_bit 3 (word_of_int n) :: mila))) = n)"
proof -
  have e: "encodeMila Labelhptr hptr 0 (CHR ''#'' # t) IC operandType =
     (if atoi t > 4095 then (2, hptr)
      else (1, hptr @ [\<lparr>cell = 4 OR push_bit 3 (word_of_int (atoi t)), address = IC\<rparr>]))" for t
    by (simp add: encodeMila_def assignNodeToList_def Let_def)
  have "atoi (printf_d n) = n" if "- 2048 \<le> n" "n \<le> 2147483647"
    using that by (intro atoi_printf_d) simp_all
  then show ?thesis
    using e immediate_ARE immediate_field immediate_field_signed immediate_field_unsigned
    by auto
qed

theorem C2_immediate_operand_witness:
  "- 2048 \<le> atoi ''-3'' \<and> printf_d (- 3) = ''-3'' \<and>
   encodeMila [] [] 0 ''#-3'' 1 ''target'' = (1, [\<lparr>cell = 0xFFEC, address = 1\<rparr>]) \<and>
   signed_take_bit 11 (uint (take_bit 12 (drop_bit 3 (0xFFEC :: mila)))) = - 3 \<and>
   - 2048 \<le> atoi ''4096'' \<and> printf_d 4096 = ''4096'' \<and>
   encodeMila [] [] 0 ''#4096'' 1 ''target'' = (2, [])"
proof -
  have a: "atoi ''-3'' = - 3" by code_simp
  have b: "atoi ''4096'' = 4096" by code_simp
  have c: "printf_d (- 3) = ''-3''" "printf_d 4096 = ''4096''"
    by (simp_all add: printf_d_def decimal.simps)
  show ?thesis
    using C2_immediate_operand [of "''-3''" "[]" "[]" 1 "''target''" "- 3"]
      C2_immediate_operand [of "''4096''" "[]" "[]" 1 "''target''" 4096]
    by (simp add: a b c)
qed

text \<open>
  C2 as the claim states it fails: \<open>#2048\<close> is not refused.  The line \<open>prn #2048\<close>
  assembles without an error into the information word and the operand word 0x4004.
\<close>

theorem C2_counterexample:
  "first_stage [] ''prn #2048\<newline>'' =
     Ok \<lparr>err_count = 0, IC_count = 2, DC_count = 0, labels = [], data_image = [],
         instruction_image = [\<lparr>cell = 24588, address = 0\<rparr>, \<lparr>cell = 0x4004, address = 1\<rparr>]\<rparr>"
  by code_simp

section \<open>The output files of an image that fits the memory\<close>

text \<open>
  With at most \<open>MEMORY_SIZE\<close> - 100 cells in the two images every store of
  \<open>loadPCMemory\<close> and every read of \<open>write2Object\<close> is inside \<open>memory_image\<close>.
\<close>

lemma load_instructions_fits:
  "AC + int (length ps) + 100 \<le> MEMORY_SIZE \<Longrightarrow>
   \<exists>m. load_instructions Instruction_hptr ps AC memory_image = Ok (m, AC + int (length ps))"
proof (induction ps arbitrary: AC memory_image)
  case Nil
  show ?case by simp
next
  case (Cons p ps)
  from Cons.prems have fits: "AC + 100 < MEMORY_SIZE"
    and rest: "(AC + 1) + int (length ps) + 100 \<le> MEMORY_SIZE" by simp_all
  have "\<exists>m. load_instructions Instruction_hptr ps (AC + 1) m' = Ok (m, AC + 1 + int (length ps))"
    for m' using Cons.IH [OF rest] .
  then show ?case using fits by (auto simp: add.assoc split: option.splits)
qed

lemma load_data_fits:
  "AC + int (length ts) + 100 \<le> MEMORY_SIZE \<Longrightarrow>
   \<exists>m. load_data ts AC memory_image = Ok (m, AC + int (length ts))"
proof (induction ts arbitrary: AC memory_image)
  case Nil
  show ?case by simp
next
  case (Cons t ts)
  from Cons.prems have fits: "AC + 100 < MEMORY_SIZE"
    and rest: "(AC + 1) + int (length ts) + 100 \<le> MEMORY_SIZE" by simp_all
  have "\<exists>m. load_data ts (AC + 1) m' = Ok (m, AC + 1 + int (length ts))" for m'
    using Cons.IH [OF rest] .
  then show ?case using fits by (auto simp: add.assoc)
qed

lemma loadPCMemory_fits:
  assumes "int (length Instruction_hptr) + int (length Data_hptr) + 100 \<le> MEMORY_SIZE"
  shows "\<exists>m. loadPCMemory Instruction_hptr Data_hptr memory_image = Ok m"
proof -
  from assms have "0 + int (length Instruction_hptr) + 100 \<le> MEMORY_SIZE" by simp
  from load_instructions_fits [OF this] obtain m1 where
    m1: "load_instructions Instruction_hptr Instruction_hptr 0 memory_image =
           Ok (m1, 0 + int (length Instruction_hptr))"
    by blast
  from assms have "(0 + int (length Instruction_hptr)) + int (length Data_hptr) + 100 \<le> MEMORY_SIZE"
    by simp
  from load_data_fits [OF this] obtain m2 where
    "load_data Data_hptr (0 + int (length Instruction_hptr)) m1 =
       Ok (m2, 0 + int (length Instruction_hptr) + int (length Data_hptr))"
    by blast
  with m1 show ?thesis by (simp add: loadPCMemory_def)
qed

lemma entries_createOutput:
  assumes "int (length Instruction_hptr) + int (length Data_hptr) + 100 \<le> MEMORY_SIZE"
  shows "map_result entries_file (createOutput Labelhptr Instruction_hptr Data_hptr) =
     Ok (if entryLabelsExists Labelhptr then Some (write2Ent Labelhptr) else None)"
proof -
  from loadPCMemory_fits [OF assms] obtain m where
    "loadPCMemory Instruction_hptr Data_hptr (\<lambda>i. 0) = Ok m" by blast
  then show ?thesis using assms
    by (simp add: createOutput_def write2Object_def Let_def)
qed

lemma memory_createOutput:
  assumes "int (length Instruction_hptr) + int (length Data_hptr) + 100 \<le> MEMORY_SIZE"
  shows "map_result memory (createOutput Labelhptr Instruction_hptr Data_hptr) =
     loadPCMemory Instruction_hptr Data_hptr (\<lambda>i. 0)"
proof -
  from loadPCMemory_fits [OF assms] obtain m where
    "loadPCMemory Instruction_hptr Data_hptr (\<lambda>i. 0) = Ok m" by blast
  then show ?thesis using assms
    by (simp add: createOutput_def write2Object_def Let_def)
qed

lemma object_createOutput:
  assumes "loadPCMemory Instruction_hptr Data_hptr (\<lambda>i. 0) = Ok m"
  shows "map_result object_file (createOutput Labelhptr Instruction_hptr Data_hptr) =
     write2Object Instruction_hptr Data_hptr m"
  using assms
  by (cases "write2Object Instruction_hptr Data_hptr m") (simp_all add: createOutput_def)

section \<open>A forward reference through both stages\<close>

lemma forward_reference_pre_assembler:
  "pre_assembler [] ''mov LEN, r1\<newline>LEN: .data 100\<newline>'' =
     Ok ([], ''mov LEN, r1\<newline>LEN: .data 100\<newline>'')"
  by code_simp

lemma forward_reference_first_stage:
  "first_stage [] ''mov LEN, r1\<newline>LEN: .data 100\<newline>'' =
     Ok \<lparr>err_count = 0, IC_count = 3, DC_count = 1,
         labels = [\<lparr>label_name = ''LEN'', value' = 103, type' = ''.data''\<rparr>],
         data_image = [\<lparr>cell = 100, address = 0\<rparr>],
         instruction_image = [\<lparr>cell = 324, address = 0\<rparr>, \<lparr>cell = 12, address = 2\<rparr>]\<rparr>"
  by code_simp

lemma forward_reference_second_stage:
  "second_stage_loop []
     \<lparr>err_count = 0, IC_count = 0, DC_count = 1,
       labels = [\<lparr>label_name = ''LEN'', value' = 103, type' = ''.data''\<rparr>],
       data_image = [\<lparr>cell = 100, address = 0\<rparr>],
       instruction_image = [\<lparr>cell = 324, address = 0\<rparr>, \<lparr>cell = 12, address = 2\<rparr>]\<rparr>
     (read_lines ''mov LEN, r1\<newline>LEN: .data 100\<newline>'') =
   Ok \<lparr>err_count = 0, IC_count = 3, DC_count = 1,
       labels = [\<lparr>label_name = ''LEN'', value' = 103, type' = ''.data''\<rparr>],
       data_image = [\<lparr>cell = 100, address = 0\<rparr>],
       instruction_image = [\<lparr>cell = 324, address = 0\<rparr>, \<lparr>cell = 12, address = 2\<rparr>,
                            \<lparr>cell = 826, address = 1\<rparr>]\<rparr>"
  by code_simp

lemma forward_reference_loadPCMemory:
  "loadPCMemory [\<lparr>cell = 324, address = 0\<rparr>, \<lparr>cell = 12, address = 2\<rparr>, \<lparr>cell = 826, address = 1\<rparr>]
     [\<lparr>cell = 100, address = 0\<rparr>] (\<lambda>i. 0) =
   Ok ((\<lambda>i. 0) (100 := 324, 101 := 826, 102 := 12, 103 := 100))"
  by (simp add: loadPCMemory_def MEMORY_SIZE_def)

lemma forward_reference_memory:
  "map_result (\<lambda>out. map (memory out) [100, 101, 102, 103])
     (assemble ''mov LEN, r1\<newline>LEN: .data 100\<newline>'') = Ok [324, 826, 12, 100]"
proof -
  have "map_result memory (assemble ''mov LEN, r1\<newline>LEN: .data 100\<newline>'') =
        Ok ((\<lambda>i. 0) (100 := 324, 101 := 826, 102 := 12, 103 := 100))"
    by (simp add: assemble_def forward_reference_pre_assembler forward_reference_first_stage
        second_stage_def forward_reference_second_stage memory_createOutput MEMORY_SIZE_def
        forward_reference_loadPCMemory)
  then show ?thesis
    by (cases "assemble ''mov LEN, r1\<newline>LEN: .data 100\<newline>''") auto
qed

text \<open>
  C1, as the code has it.  For the program \<open>mov LEN, r1\<close>, \<open>LEN: .data 100\<close> the
  first stage stores the information word at offset 0 and the word of \<open>r1\<close> at offset
  2; it stores no cell at offset 1, the word of the forward reference \<open>LEN\<close>.  It ends
  with \<open>IC\<close> = 3 (three words: the information word and one word for each operand)
  and \<open>DC\<close> = 1, and \<open>LEN\<close> rebased to 0 + 3 + 100 = 103.  The second stage adds
  the cell of offset 1: the address 103 in bits 14-3 and \<open>R\<close> of \<open>ARE\<close>.  The memory
  from address 100 on is then the information word, the word of \<open>LEN\<close>, the word of
  \<open>r1\<close> and the data word 100.
\<close>

theorem C1_forward_reference:
  "first_stage [] ''mov LEN, r1\<newline>LEN: .data 100\<newline>'' =
     Ok \<lparr>err_count = 0, IC_count = 3, DC_count = 1,
         labels = [\<lparr>label_name = ''LEN'', value' = 103, type' = ''.data''\<rparr>],
         data_image = [\<lparr>cell = 100, address = 0\<rparr>],
         instruction_image = [\<lparr>cell = 324, address = 0\<rparr>, \<lparr>cell = 12, address = 2\<rparr>]\<rparr> \<and>
   second_stage_loop []
     \<lparr>err_count = 0, IC_count = 0, DC_count = 1,
       labels = [\<lparr>label_name = ''LEN'', value' = 103, type' = ''.data''\<rparr>],
       data_image = [\<lparr>cell = 100, address = 0\<rparr>],
       instruction_image = [\<lparr>cell = 324, address = 0\<rparr>, \<lparr>cell = 12, address = 2\<rparr>]\<rparr>
     (read_lines ''mov LEN, r1\<newline>LEN: .data 100\<newline>'') =
     Ok \<lparr>err_count = 0, IC_count = 3, DC_count = 1,
         labels = [\<lparr>label_name = ''LEN'', value' = 103, type' = ''.data''\<rparr>],
         data_image = [\<lparr>cell = 100, address = 0\<rparr>],
         instruction_image = [\<lparr>cell = 324, address = 0\<rparr>, \<lparr>cell = 12, address = 2\<rparr>,
                              \<lparr>cell = 826, address = 1\<rparr>]\<rparr> \<and>
   map_result (\<lambda>out. map (memory out) [100, 101, 102, 103])
     (assemble ''mov LEN, r1\<newline>LEN: .data 100\<newline>'') = Ok [324, 826, 12, 100] \<and>
   (324 :: mila) = push_bit 11 0 OR push_bit 8 1 OR push_bit 6 1 OR push_bit 2 1 \<and>
   (826 :: mila) = push_bit 3 103 OR push_bit 1 1"
  using forward_reference_first_stage forward_reference_second_stage forward_reference_memory
  by simp

text \<open>
  C1 as the claim states it fails: after the first stage \<open>IC\<close> is 3, not 2.
\<close>

theorem C1_counterexample:
  "map_result IC_count (first_stage [] ''mov LEN, r1\<newline>LEN: .data 100\<newline>'') = Ok 3 \<and>
   map_result IC_count (first_stage [] ''mov LEN, r1\<newline>LEN: .data 100\<newline>'') \<noteq> Ok 2"
  by (simp add: forward_reference_first_stage)

section \<open>The entry directive\<close>

lemma changeEntryStatus_status:
  "isAlreadyLabel ps w \<Longrightarrow> getLabelStatus (changeEntryStatus ps w) w = Some ''.entry''"
  by (induction ps) auto

lemma changeEntryStatus_address:
  "getLabelAddress (changeEntryStatus ps w) v = getLabelAddress ps v"
  by (induction ps) auto

lemma changeEntryStatus_other:
  "v \<noteq> w \<Longrightarrow> getLabelStatus (changeEntryStatus ps w) v = getLabelStatus ps v"
  by (induction ps) auto

lemma entry_of_extern_pre_assembler:
  "pre_assembler [] ''.extern X\<newline>.entry X\<newline>jmp X\<newline>'' =
     Ok ([], ''.extern X\<newline>.entry X\<newline>jmp X\<newline>'')"
  by code_simp

lemma entry_of_extern_first_stage:
  "first_stage [] ''.extern X\<newline>.entry X\<newline>jmp X\<newline>'' =
     Ok \<lparr>err_count = 0, IC_count = 2, DC_count = 0,
         labels = [\<lparr>label_name = ''X'', value' = 0, type' = ''.external''\<rparr>],
         data_image = [],
         instruction_image = [\<lparr>cell = 18452, address = 0\<rparr>, \<lparr>cell = 1, address = 1\<rparr>]\<rparr>"
  by code_simp

lemma entry_of_extern_second_stage:
  "second_stage_loop []
     \<lparr>err_count = 0, IC_count = 0, DC_count = 0,
       labels = [\<lparr>label_name = ''X'', value' = 0, type' = ''.external''\<rparr>],
       data_image = [],
       instruction_image = [\<lparr>cell = 18452, address = 0\<rparr>, \<lparr>cell = 1, address = 1\<rparr>]\<rparr>
     (read_lines ''.extern X\<newline>.entry X\<newline>jmp X\<newline>'') =
   Ok \<lparr>err_count = 0, IC_count = 2, DC_count = 0,
       labels = [\<lparr>label_name = ''X'', value' = 0, type' = ''.entry''\<rparr>],
       data_image = [],
       instruction_image = [\<lparr>cell = 18452, address = 0\<rparr>, \<lparr>cell = 1, address = 1\<rparr>]\<rparr>"
  by code_simp

text \<open>
  C5, as the code has it.  \<open>addEntry\<close> asks only whether the name is in the label
  table.  If it is, whatever the type of the symbol, the result is 1 and the symbol has
  the type \<open>.entry\<close> afterwards, with its value and every other symbol's type and
  value as before.  If it is not, the result is 0, the error of an unknown name, and the
  table is as before.
\<close>

theorem C5_addEntry:
  "(isAlreadyLabel Labelhptr w \<longrightarrow>
      fst (addEntry Labelhptr w) = 1 \<and>
      getLabelStatus (snd (addEntry Labelhptr w)) w = Some ''.entry'' \<and>
      (\<forall>v. getLabelAddress (snd (addEntry Labelhptr w)) v = getLabelAddress Labelhptr v) \<and>
      (\<forall>v. v \<noteq> w \<longrightarrow>
         getLabelStatus (snd (addEntry Labelhptr w)) v = getLabelStatus Labelhptr v)) \<and>
   (\<not> isAlreadyLabel Labelhptr w \<longrightarrow> addEntry Labelhptr w = (0, Labelhptr))"
  by (simp add: addEntry_def changeEntryStatus_status changeEntryStatus_address
        changeEntryStatus_other)

theorem C5_addEntry_witness:
  "isAlreadyLabel [\<lparr>label_name = ''X'', value' = 0, type' = ''.external''\<rparr>] ''X'' \<and>
   fst (addEntry [\<lparr>label_name = ''X'', value' = 0, type' = ''.external''\<rparr>] ''X'') = 1 \<and>
   getLabelStatus (snd (addEntry [\<lparr>label_name = ''X'', value' = 0, type' = ''.external''\<rparr>] ''X'')) ''X''
     = Some ''.entry'' \<and>
   \<not> isAlreadyLabel [\<lparr>label_name = ''X'', value' = 0, type' = ''.external''\<rparr>] ''Y'' \<and>
   addEntry [\<lparr>label_name = ''X'', value' = 0, type' = ''.external''\<rparr>] ''Y'' =
     (0, [\<lparr>label_name = ''X'', value' = 0, type' = ''.external''\<rparr>])"
  using C5_addEntry [of "[\<lparr>label_name = ''X'', value' = 0, type' = ''.external''\<rparr>]" "''X''"]
    C5_addEntry [of "[\<lparr>label_name = ''X'', value' = 0, type' = ''.external''\<rparr>]" "''Y''"]
  by simp

text \<open>
  C5 as the claim states it fails: \<open>.entry\<close> on an external symbol is no error.  The
  program \<open>.extern X\<close>, \<open>.entry X\<close>, \<open>jmp X\<close> goes through all passes, \<open>X\<close>
  is promoted, and the entries file holds the line \<open>X 0\<close>.
\<close>

theorem C5_counterexample:
  "addEntry [\<lparr>label_name = ''X'', value' = 0, type' = ''.external''\<rparr>] ''X'' =
     (1, [\<lparr>label_name = ''X'', value' = 0, type' = ''.entry''\<rparr>]) \<and>
   map_result entries_file (assemble ''.extern X\<newline>.entry X\<newline>jmp X\<newline>'') =
     Ok (Some ''X 0\<newline>'')"
  by (simp add: addEntry_def assemble_def entry_of_extern_pre_assembler entry_of_extern_first_stage
        second_stage_def entry_of_extern_second_stage entries_createOutput MEMORY_SIZE_def printf_d_def
        decimal.simps)

section \<open>The entries file\<close>

lemma entry_main_pre_assembler:
  "pre_assembler [] ''.entry MAIN\<newline>MAIN: mov #1, r0\<newline>stop\<newline>'' =
     Ok ([], ''.entry MAIN\<newline>MAIN: mov #1, r0\<newline>stop\<newline>'')"
  by code_simp

lemma entry_main_first_stage:
  "first_stage [] ''.entry MAIN\<newline>MAIN: mov #1, r0\<newline>stop\<newline>'' =
     Ok \<lparr>err_count = 0, IC_count = 4, DC_count = 0,
         labels = [\<lparr>label_name = ''MAIN'', value' = 100, type' = ''.code''\<rparr>],
         data_image = [],
         instruction_image =
           [\<lparr>cell = 196, address = 0\<rparr>, \<lparr>cell = 12, address = 1\<rparr>,
            \<lparr>cell = 4, address = 2\<rparr>, \<lparr>cell = 30724, address = 3\<rparr>]\<rparr>"
  by code_simp

lemma entry_main_second_stage:
  "second_stage_loop []
     \<lparr>err_count = 0, IC_count = 0, DC_count = 0,
       labels = [\<lparr>label_name = ''MAIN'', value' = 100, type' = ''.code''\<rparr>],
       data_image = [],
       instruction_image =
         [\<lparr>cell = 196, address = 0\<rparr>, \<lparr>cell = 12, address = 1\<rparr>,
          \<lparr>cell = 4, address = 2\<rparr>, \<lparr>cell = 30724, address = 3\<rparr>]\<rparr>
     (read_lines ''.entry MAIN\<newline>MAIN: mov #1, r0\<newline>stop\<newline>'') =
   Ok \<lparr>err_count = 0, IC_count = 4, DC_count = 0,
       labels = [\<lparr>label_name = ''MAIN'', value' = 100, type' = ''.entry''\<rparr>],
       data_image = [],
       instruction_image =
         [\<lparr>cell = 196, address = 0\<rparr>, \<lparr>cell = 12, address = 1\<rparr>,
          \<lparr>cell = 4, address = 2\<rparr>, \<lparr>cell = 30724, address = 3\<rparr>]\<rparr>"
  by code_simp

lemma entry_main_entries_file:
  "map_result entries_file (assemble ''.entry MAIN\<newline>MAIN: mov #1, r0\<newline>stop\<newline>'') =
     Ok (Some ''MAIN 100\<newline>'')"
  by (simp add: assemble_def entry_main_pre_assembler entry_main_first_stage second_stage_def
        entry_main_second_stage entries_createOutput MEMORY_SIZE_def printf_d_def decimal.simps)

lemma entry_order_pre_assembler:
  "pre_assembler [] ''.entry B\<newline>.entry A\<newline>A: stop\<newline>B: stop\<newline>'' =
     Ok ([], ''.entry B\<newline>.entry A\<newline>A: stop\<newline>B: stop\<newline>'')"
  by code_simp

lemma entry_order_first_stage:
  "first_stage [] ''.entry B\<newline>.entry A\<newline>A: stop\<newline>B: stop\<newline>'' =
     Ok \<lparr>err_count = 0, IC_count = 2, DC_count = 0,
         labels = [\<lparr>label_name = ''A'', value' = 100, type' = ''.code''\<rparr>,
                   \<lparr>label_name = ''B'', value' = 101, type' = ''.code''\<rparr>],
         data_image = [],
         instruction_image = [\<lparr>cell = 30724, address = 0\<rparr>, \<lparr>cell = 30724, address = 1\<rparr>]\<rparr>"
  by code_simp

lemma entry_order_second_stage:
  "second_stage_loop []
     \<lparr>err_count = 0, IC_count = 0, DC_count = 0,
       labels = [\<lparr>label_name = ''A'', value' = 100, type' = ''.code''\<rparr>,
                 \<lparr>label_name = ''B'', value' = 101, type' = ''.code''\<rparr>],
       data_image = [],
       instruction_image = [\<lparr>cell = 30724, address = 0\<rparr>, \<lparr>cell = 30724, address = 1\<rparr>]\<rparr>
     (read_lines ''.entry B\<newline>.entry A\<newline>A: stop\<newline>B: stop\<newline>'') =
   Ok \<lparr>err_count = 0, IC_count = 2, DC_count = 0,
       labels = [\<lparr>label_name = ''A'', value' = 100, type' = ''.entry''\<rparr>,
                 \<lparr>label_name = ''B'', value' = 101, type' = ''.entry''\<rparr>],
       data_image = [],
       instruction_image = [\<lparr>cell = 30724, address = 0\<rparr>, \<lparr>cell = 30724, address = 1\<rparr>]\<rparr>"
  by code_simp

lemma entry_order_entries_file:
  "map_result entries_file (assemble ''.entry B\<newline>.entry A\<newline>A: stop\<newline>B: stop\<newline>'') =
     Ok (Some ''A 100\<newline>B 101\<newline>'')"
  by (simp add: assemble_def entry_order_pre_assembler entry_order_first_stage second_stage_def
        entry_order_second_stage entries_createOutput MEMORY_SIZE_def printf_d_def decimal.simps)

lemma write2Ent_filter:
  "write2Ent ps =
     concat (map (\<lambda>p. label_name p @ '' '' @ printf_d (value' p) @ ''\<newline>'')
               (filter (\<lambda>p. type' p = ''.entry'') ps))"
  by (induction ps) auto

text \<open>
  C7, as the code has it.  The entries file has one line for every symbol of type
  \<open>.entry\<close>, in the order of the label table, which is the order in which the first
  stage met the definitions of the labels; a line is the name, a blank and the value
  printed with \<open>%d\<close>, without leading zeros.  For the program \<open>.entry MAIN\<close>,
  \<open>MAIN: mov #1, r0\<close>, \<open>stop\<close> the file is the line \<open>MAIN 100\<close>; for the program
  that declares \<open>.entry B\<close> before \<open>.entry A\<close> and defines \<open>A\<close> before \<open>B\<close> the
  line of \<open>A\<close> comes first.
\<close>

theorem C7_entries_file:
  "write2Ent ps =
     concat (map (\<lambda>p. label_name p @ '' '' @ printf_d (value' p) @ ''\<newline>'')
               (filter (\<lambda>p. type' p = ''.entry'') ps)) \<and>
   map_result entries_file (assemble ''.entry MAIN\<newline>MAIN: mov #1, r0\<newline>stop\<newline>'') =
     Ok (Some ''MAIN 100\<newline>'') \<and>
   map_result entries_file (assemble ''.entry B\<newline>.entry A\<newline>A: stop\<newline>B: stop\<newline>'') =
     Ok (Some ''A 100\<newline>B 101\<newline>'')"
  using write2Ent_filter entry_main_entries_file entry_order_entries_file by blast

text \<open>
  C7 as the claim states it fails: the entries file of the program is \<open>MAIN 100\<close>, not
  \<open>MAIN 0100\<close>.
\<close>

theorem C7_counterexample:
  "map_result entries_file (assemble ''.entry MAIN\<newline>MAIN: mov #1, r0\<newline>stop\<newline>'') =
     Ok (Some ''MAIN 100\<newline>'') \<and>
   map_result entries_file (assemble ''.entry MAIN\<newline>MAIN: mov #1, r0\<newline>stop\<newline>'') \<noteq>
     Ok (Some ''MAIN 0100\<newline>'')"
  by (simp add: entry_main_entries_file)

section \<open>Two register operands in the second stage\<close>

lemma isRegister_register_operand: "isRegister w = (if register_operand w then 1 else 0)"
  by (auto simp: isRegister_def register_operand_def)

lemma isRegister_instruction: "validInstructionName m \<Longrightarrow> isRegister m = 0"
  by (auto simp: isRegister_def validInstructionName_def instructionWords_def)

lemma checkRegisters_eq:
  "checkRegisters a b c =
     (if (isRegister a = 1 \<and> isRegister b = 1) \<or> (isRegister b = 1 \<and> isRegister c = 1)
      then 1 else 0)"
  by (simp add: checkRegisters_def c_or_def c_and_def c_eq_def isRegister_def)

lemma register_operand_registers:
  "register_operand w =
     (w \<in> set registers \<or> (w \<noteq> [] \<and> hd w = CHR ''*'' \<and> tl w \<in> set registers))"
  unfolding register_operand_def registers_def by (cases w) auto

lemma registers_hd:
  "w \<in> set registers \<Longrightarrow> hd w \<noteq> CHR ''#'' \<and> hd w \<noteq> CHR ''*'' \<and> w \<noteq> []"
  unfolding registers_def by auto

lemma register_operand_addressing_type:
  "\<not> isAlreadyLabel Labelhptr w \<Longrightarrow>
   register_operand w =
     (getAddressingType Labelhptr w = 2 \<or> getAddressingType Labelhptr w = 3)"
  unfolding register_operand_registers getAddressingType_def
  using registers_hd [of w] by (simp split: if_splits) blast?

text \<open>
  C8.  \<open>write2Extern\<close> hands \<open>checkRegisters\<close> the second, third and fourth word
  of the line, the empty string for a word the line does not have.  On a line
  \<open>m a b\<close> without a label the two operands are the second and third word; on a line
  \<open>label: m a b\<close> they are the third and fourth, and the second is the instruction word
  \<open>m\<close>.  In both cases the result is 1 exactly when \<open>a\<close> and \<open>b\<close> are both
  register operands (\<open>rN\<close> or \<open>*rN\<close>), and it is 0 on a line with fewer than two
  operands.  A word that is no symbol of the label table is a register operand exactly
  when \<open>getAddressingType\<close> gives it the addressing type 2 or 3.
\<close>

theorem C8_checkRegisters:
  "validInstructionName m \<longrightarrow>
     checkRegisters a b [] = (if register_operand a \<and> register_operand b then 1 else 0) \<and>
     checkRegisters m a b = (if register_operand a \<and> register_operand b then 1 else 0) \<and>
     checkRegisters a [] [] = 0 \<and> checkRegisters m a [] = 0 \<and>
     checkRegisters [] [] [] = 0 \<and> checkRegisters m [] [] = 0 \<and>
     (\<not> isAlreadyLabel Labelhptr a \<longrightarrow>
        register_operand a =
          (getAddressingType Labelhptr a = 2 \<or> getAddressingType Labelhptr a = 3))"
proof
  assume m: "validInstructionName m"
  have e: "isRegister [] = 0" by (simp add: isRegister_def)
  show "checkRegisters a b [] = (if register_operand a \<and> register_operand b then 1 else 0) \<and>
     checkRegisters m a b = (if register_operand a \<and> register_operand b then 1 else 0) \<and>
     checkRegisters a [] [] = 0 \<and> checkRegisters m a [] = 0 \<and>
     checkRegisters [] [] [] = 0 \<and> checkRegisters m [] [] = 0 \<and>
     (\<not> isAlreadyLabel Labelhptr a \<longrightarrow>
        register_operand a =
          (getAddressingType Labelhptr a = 2 \<or> getAddressingType Labelhptr a = 3))"
    using isRegister_instruction [OF m] e register_operand_addressing_type [of Labelhptr a]
    by (simp add: checkRegisters_eq isRegister_register_operand)
qed

theorem C8_checkRegisters_witness:
  "validInstructionName ''mov'' \<and>
   checkRegisters ''r3'' ''*r5'' [] = 1 \<and> checkRegisters ''mov'' ''r3'' ''*r5'' = 1 \<and>
   checkRegisters ''r3'' ''LEN'' [] = 0 \<and> checkRegisters ''mov'' ''LEN'' ''r3'' = 0 \<and>
   \<not> isAlreadyLabel [] ''r3'' \<and> getAddressingType [] ''r3'' = 3 \<and>
   checkRegisters (get_second_word ''MAIN: mov r3  r5\<newline>'')
     (word_text (get_third_word ''MAIN: mov r3  r5\<newline>''))
     (word_text (get_fourth_word ''MAIN: mov r3  r5\<newline>'')) = 1"
proof -
  have v: "validInstructionName ''mov''" by code_simp
  have r: "register_operand ''r3''" "register_operand ''*r5''" "\<not> register_operand ''LEN''"
    by (simp_all add: register_operand_def)
  have g: "getAddressingType [] ''r3'' = 3" by code_simp
  have w: "get_second_word ''MAIN: mov r3  r5\<newline>'' = ''mov''"
    "word_text (get_third_word ''MAIN: mov r3  r5\<newline>'') = ''r3''"
    "word_text (get_fourth_word ''MAIN: mov r3  r5\<newline>'') = ''r5''"
    by code_simp+
  have r5: "register_operand ''r5''" by (simp add: register_operand_def)
  show ?thesis
    using C8_checkRegisters [of "''mov''" "''r3''" "''*r5''" "[]"]
      C8_checkRegisters [of "''mov''" "''r3''" "''LEN''" "[]"]
      C8_checkRegisters [of "''mov''" "''LEN''" "''r3''" "[]"]
      C8_checkRegisters [of "''mov''" "''r3''" "''r5''" "[]"]
    by (simp add: v r g w r5)
qed

section \<open>The words of the object file\<close>

lemma negative_data_first_stage:
  "first_stage [] ''.data 7, -3, +5\<newline>'' =
     Ok \<lparr>err_count = 0, IC_count = 0, DC_count = 3, labels = [],
         data_image = [\<lparr>cell = 7, address = 0\<rparr>, \<lparr>cell = 0xFFFD, address = 1\<rparr>,
                       \<lparr>cell = 5, address = 2\<rparr>],
         instruction_image = []\<rparr>"
  by code_simp

lemma negative_data_pre_assembler:
  "pre_assembler [] ''.data 7, -3, +5\<newline>'' = Ok ([], ''.data 7, -3, +5\<newline>'')"
  by code_simp

lemma negative_data_second_stage:
  "second_stage_loop []
     \<lparr>err_count = 0, IC_count = 0, DC_count = 3, labels = [],
       data_image = [\<lparr>cell = 7, address = 0\<rparr>, \<lparr>cell = 0xFFFD, address = 1\<rparr>,
                     \<lparr>cell = 5, address = 2\<rparr>],
       instruction_image = []\<rparr>
     (read_lines ''.data 7, -3, +5\<newline>'') =
   Ok \<lparr>err_count = 0, IC_count = 0, DC_count = 3, labels = [],
       data_image = [\<lparr>cell = 7, address = 0\<rparr>, \<lparr>cell = 0xFFFD, address = 1\<rparr>,
                     \<lparr>cell = 5, address = 2\<rparr>],
       instruction_image = []\<rparr>"
  by code_simp

lemma negative_data_object_file:
  "map_result object_file (createOutput []  []
      [\<lparr>cell = 7, address = 0\<rparr>, \<lparr>cell = 0xFFFD, address = 1\<rparr>, \<lparr>cell = 5, address = 2\<rparr>]) =
   Ok ''0 3\<newline>0100 00007\<newline>0101 77775\<newline>0102 00005\<newline>''"
proof -
  have m: "loadPCMemory []
      [\<lparr>cell = 7, address = 0\<rparr>, \<lparr>cell = 0xFFFD, address = 1\<rparr>, \<lparr>cell = 5, address = 2\<rparr>] (\<lambda>i. 0) =
     Ok ((\<lambda>i. 0) (100 := 7, 101 := 0xFFFD, 102 := 5))"
    by (simp add: loadPCMemory_def MEMORY_SIZE_def)
  show ?thesis
    apply (simp only: object_createOutput [OF m])
    apply (simp add: write2Object_def Let_def upt_rec MEMORY_SIZE_def)
    apply (simp add: object_line_def object_word_def
        printf_04d_def printf_05o_def printf_d_def zero_pad_def decimal.simps octal.simps)
    apply (simp add: eval_nat_numeral)
    done
qed

lemma negative_data_assemble:
  "map_result object_file (assemble ''.data 7, -3, +5\<newline>'') =
     Ok ''0 3\<newline>0100 00007\<newline>0101 77775\<newline>0102 00005\<newline>''"
  by (simp add: assemble_def negative_data_pre_assembler negative_data_first_stage
        second_stage_def negative_data_second_stage negative_data_object_file)

lemma object_word_bound: "unat (object_word memory_image i) \<le> 0x7FFF"
proof -
  have "(0x7FFF :: mila) = mask 15" by (simp add: mask_eq_exp_minus_1)
  then have "object_word memory_image i = take_bit 15 (memory_image (int i + 100))"
    by (simp add: object_word_def take_bit_eq_mask)
  then have "unat (object_word memory_image i) = take_bit 15 (unat (memory_image (int i + 100)))"
    by (simp add: unsigned_take_bit_eq)
  also have "\<dots> < 2 ^ 15" by (rule take_bit_nat_less_exp)
  finally show ?thesis by simp
qed

lemma negative_immediate_pre_assembler:
  "pre_assembler [] ''prn #-3\<newline>'' = Ok ([], ''prn #-3\<newline>'')"
  by code_simp

lemma negative_immediate_first_stage:
  "first_stage [] ''prn #-3\<newline>'' =
     Ok \<lparr>err_count = 0, IC_count = 2, DC_count = 0, labels = [], data_image = [],
         instruction_image = [\<lparr>cell = 24588, address = 0\<rparr>, \<lparr>cell = 0xFFEC, address = 1\<rparr>]\<rparr>"
  by code_simp

lemma negative_immediate_second_stage:
  "second_stage_loop []
     \<lparr>err_count = 0, IC_count = 0, DC_count = 0, labels = [], data_image = [],
       instruction_image = [\<lparr>cell = 24588, address = 0\<rparr>, \<lparr>cell = 0xFFEC, address = 1\<rparr>]\<rparr>
     (read_lines ''prn #-3\<newline>'') =
   Ok \<lparr>err_count = 0, IC_count = 2, DC_count = 0, labels = [], data_image = [],
       instruction_image = [\<lparr>cell = 24588, address = 0\<rparr>, \<lparr>cell = 0xFFEC, address = 1\<rparr>]\<rparr>"
  by code_simp

lemma negative_immediate_object_file:
  "map_result object_file
     (createOutput [] [\<lparr>cell = 24588, address = 0\<rparr>, \<lparr>cell = 0xFFEC, address = 1\<rparr>] []) =
   Ok ''2 0\<newline>0100 60014\<newline>0101 77754\<newline>''"
proof -
  have m: "loadPCMemory [\<lparr>cell = 24588, address = 0\<rparr>, \<lparr>cell = 0xFFEC, address = 1\<rparr>] [] (\<lambda>i. 0) =
     Ok ((\<lambda>i. 0) (100 := 24588, 101 := 0xFFEC))"
    by (simp add: loadPCMemory_def MEMORY_SIZE_def)
  show ?thesis
    apply (simp only: object_createOutput [OF m])
    apply (simp add: write2Object_def Let_def upt_rec MEMORY_SIZE_def)
    apply (simp add: object_line_def object_word_def
        printf_04d_def printf_05o_def printf_d_def zero_pad_def decimal.simps octal.simps)
    done
qed

lemma negative_immediate_assemble:
  "map_result object_file (assemble ''prn #-3\<newline>'') =
     Ok ''2 0\<newline>0100 60014\<newline>0101 77754\<newline>''"
  by (simp add: assemble_def negative_immediate_pre_assembler negative_immediate_first_stage
        second_stage_def negative_immediate_second_stage negative_immediate_object_file)

text \<open>
  C10.  The body of the object file is one line for each cell of the two images, in the
  order of the addresses, and the word \<open>write2Object\<close> prints on the line of cell \<open>i\<close>
  is \<open>object_word\<close>, the cell masked with 077777: it is at most 077777 = 0x7FFF whatever
  the cell holds.  \<open>addData\<close> stores -3 as the 16 bits 0xFFFD, and the object file of
  \<open>.data 7, -3, +5\<close> shows it as 77775 (octal), which is 0x7FFD; the operand word of
  \<open>prn #-3\<close>, 0xFFEC, is shown as 77754.
\<close>

theorem C10_object_words:
  "unat (object_word memory_image i) \<le> 0x7FFF \<and>
   object_line memory_image i =
     printf_04d (int i + 100) @ '' '' @ printf_05o (unat (object_word memory_image i)) @ ''\<newline>'' \<and>
   write2Object Instruction_hptr Data_hptr memory_image =
     (if int (length Instruction_hptr + length Data_hptr) + 100 > MEMORY_SIZE
      then Undefined_behaviour
      else Ok (printf_d (int (length Instruction_hptr)) @ '' '' @
               printf_d (int (length Data_hptr)) @ ''\<newline>'' @
               concat (map (object_line memory_image)
                 [0..<length Instruction_hptr + length Data_hptr]))) \<and>
   addData hptr (- 3) DC = hptr @ [\<lparr>cell = 0xFFFD, address = DC\<rparr>] \<and>
   (0xFFFD :: mila) AND 0x7FFF = 0x7FFD \<and>
   map_result object_file (assemble ''.data 7, -3, +5\<newline>'') =
     Ok ''0 3\<newline>0100 00007\<newline>0101 77775\<newline>0102 00005\<newline>'' \<and>
   map_result object_file (assemble ''prn #-3\<newline>'') =
     Ok ''2 0\<newline>0100 60014\<newline>0101 77754\<newline>''"
proof -
  have "write2Object Instruction_hptr Data_hptr memory_image =
     (if int (length Instruction_hptr + length Data_hptr) + 100 > MEMORY_SIZE
      then Undefined_behaviour
      else Ok (printf_d (int (length Instruction_hptr)) @ '' '' @
               printf_d (int (length Data_hptr)) @ ''\<newline>'' @
               concat (map (object_line memory_image)
                 [0..<length Instruction_hptr + length Data_hptr])))"
    by (simp add: write2Object_def Let_def)
  then show ?thesis
    using object_word_bound [of memory_image i] negative_data_assemble negative_immediate_assemble
    by (simp add: object_line_def addData_def)
qed

section \<open>The macro pass on its own output\<close>

text \<open>What \<open>fgets\<close> reads, and \<open>fgets\<close> on a text that starts with a line.\<close>

lemma fgets_chars_line:
  "CHR 0x0A \<notin> set b \<Longrightarrow> length b < n \<Longrightarrow>
   fgets_chars n (b @ CHR 0x0A # rest) = (b @ [CHR 0x0A], rest)"
proof (induction b arbitrary: n)
  case Nil
  then show ?case by (cases n) auto
next
  case (Cons c b)
  then show ?case by (cases n) auto
qed

lemma fgets_chars_end:
  "CHR 0x0A \<notin> set l \<Longrightarrow> length l \<le> n \<Longrightarrow> fgets_chars n l = (l, [])"
proof (induction l arbitrary: n)
  case Nil
  then show ?case by (cases n) auto
next
  case (Cons c l)
  then show ?case by (cases n) auto
qed

lemma fgets_83_kept_line:
  assumes "kept_line l" and "last l = CHR 0x0A \<or> rest = []"
  shows "fgets 83 (l @ rest) = Some (l, rest)"
proof (cases "last l = CHR 0x0A")
  case True
  define b where "b = butlast l"
  from assms(1) have "l \<noteq> []" by (simp add: kept_line_def)
  with True have l: "l = b @ [CHR 0x0A]" unfolding b_def by (metis append_butlast_last_id)
  from assms(1) have n: "CHR 0x0A \<notin> set b" and "length l \<le> 81"
    unfolding b_def by (simp_all add: kept_line_def)
  then have len: "length b < 82" using l by simp
  have "fgets_chars 82 (b @ CHR 0x0A # rest) = (b @ [CHR 0x0A], rest)"
    using n len by (rule fgets_chars_line)
  then show ?thesis unfolding l by (simp add: fgets_def)
next
  case False
  with assms(2) have r: "rest = []" by simp
  from assms(1) have ne: "l \<noteq> []" and b: "CHR 0x0A \<notin> set (butlast l)" and len: "length l \<le> 81"
    by (simp_all add: kept_line_def)
  from ne have "set l = insert (last l) (set (butlast l))"
    by (metis append_butlast_last_id list.simps(15) rotate1.simps(2) set_rotate1)
  with False b have "CHR 0x0A \<notin> set l" by auto
  moreover from len have "length l \<le> 82" by simp
  ultimately have "fgets_chars 82 l = (l, [])" by (rule fgets_chars_end)
  with ne r show ?thesis by (simp add: fgets_def)
qed

lemma fgets_chars_reads:
  "fgets_chars n s = (l, r) \<Longrightarrow>
   s = l @ r \<and> length l \<le> n \<and> CHR 0x0A \<notin> set (butlast l) \<and>
   (r = [] \<or> length l = n \<or> (l \<noteq> [] \<and> last l = CHR 0x0A))"
proof (induction n s arbitrary: l r rule: fgets_chars.induct)
  case (1 s)
  then show ?case by simp
next
  case (2 n)
  then show ?case by simp
next
  case (3 n c s)
  show ?case
  proof (cases "c = CHR 0x0A")
    case True
    with 3(2) show ?thesis by auto
  next
    case False
    obtain l' r' where f: "fgets_chars n s = (l', r')" by (cases "fgets_chars n s")
    from 3(1) [OF False f] have ih: "s = l' @ r'" "length l' \<le> n" "CHR 0x0A \<notin> set (butlast l')"
      "r' = [] \<or> length l' = n \<or> (l' \<noteq> [] \<and> last l' = CHR 0x0A)" by simp_all
    from 3(2) False f have lr: "l = c # l'" "r = r'" by simp_all
    from ih False show ?thesis unfolding lr by auto
  qed
qed

lemma fgets_83_reads:
  assumes "fgets 83 fp = Some (line, rest)"
  shows "fp = line @ rest" and "line \<noteq> []" and "length line \<le> 82"
    and "CHR 0x0A \<notin> set (butlast line)"
    and "rest = [] \<or> length line = 82 \<or> last line = CHR 0x0A"
proof -
  from assms have ne: "fp \<noteq> []" and f: "fgets_chars 82 fp = (line, rest)"
    by (auto simp: fgets_def split: if_splits)
  from fgets_chars_reads [OF f] show "fp = line @ rest" "length line \<le> 82"
    "CHR 0x0A \<notin> set (butlast line)" "rest = [] \<or> length line = 82 \<or> last line = CHR 0x0A"
    by auto
  from ne obtain c cs where "fp = c # cs" by (cases fp) auto
  with f show "line \<noteq> []"
    by (auto simp: eval_nat_numeral split: if_splits prod.splits)
qed

text \<open>Texts of whole lines.\<close>

lemma whole_lines_Nil: "whole_lines []"
  unfolding whole_lines_def by (rule exI [of _ "[]"]) simp

lemma whole_lines_line: "kept_line l \<Longrightarrow> last l = CHR 0x0A \<Longrightarrow> whole_lines l"
  unfolding whole_lines_def by (rule exI [of _ "[l]"]) simp

lemma whole_lines_append: "whole_lines a \<Longrightarrow> whole_lines b \<Longrightarrow> whole_lines (a @ b)"
proof -
  assume "whole_lines a" "whole_lines b"
  then obtain la lb where "a = concat la" "list_all kept_line la"
    "list_all (\<lambda>l. last l = CHR 0x0A) la" "b = concat lb" "list_all kept_line lb"
    "list_all (\<lambda>l. last l = CHR 0x0A) lb"
    unfolding whole_lines_def by blast
  then show ?thesis unfolding whole_lines_def by (intro exI [of _ "la @ lb"]) simp
qed

lemma whole_lines_kept_lines:
  assumes "whole_lines t" and "e = [] \<or> kept_line e"
  shows "\<exists>ls. t @ e = concat ls \<and> kept_lines ls"
proof -
  from assms(1) obtain ls where ls: "t = concat ls" "list_all kept_line ls"
    "list_all (\<lambda>l. last l = CHR 0x0A) ls"
    unfolding whole_lines_def by blast
  show ?thesis
  proof (cases "e = []")
    case True
    from ls(3) have "list_all (\<lambda>l. last l = CHR 0x0A) (butlast ls)"
      by (auto simp: list_all_iff dest: in_set_butlastD)
    with ls True show ?thesis by (intro exI [of _ ls]) (simp add: kept_lines_def)
  next
    case False
    with assms(2) have "kept_line e" by simp
    with ls show ?thesis by (intro exI [of _ "ls @ [e]"]) (simp add: kept_lines_def)
  qed
qed

text \<open>The macro table: the bodies stay texts of whole lines.\<close>

lemma getMacro_whole_lines:
  "\<forall>m \<in> set hptr. whole_lines (macro_content m) \<Longrightarrow> whole_lines (word_text (getMacro hptr w))"
  by (induction hptr) (auto simp: word_text_def whole_lines_Nil)

lemma addMacroContent_whole_lines:
  "addMacroContent hptr line name = Some hptr' \<Longrightarrow>
   \<forall>m \<in> set hptr. whole_lines (macro_content m) \<Longrightarrow> whole_lines line \<Longrightarrow>
   \<forall>m \<in> set hptr'. whole_lines (macro_content m)"
proof (induction hptr arbitrary: hptr')
  case Nil
  then show ?case by simp
next
  case (Cons t ts)
  show ?case
  proof (cases "macro_name t = name")
    case True
    with Cons.prems show ?thesis by (auto simp: whole_lines_append)
  next
    case False
    with Cons.prems obtain ts' where a: "addMacroContent ts line name = Some ts'"
      and h: "hptr' = t # ts'"
      by (auto split: option.splits)
    from Cons.IH [OF a] Cons.prems have "\<forall>m \<in> set ts'. whole_lines (macro_content m)" by simp
    with Cons.prems h show ?thesis by simp
  qed
qed

text \<open>
  One line of the source: what it adds to the \<open>.am\<close> file is a text of whole lines (a
  macro body, or nothing) or the line itself, then a line the pass keeps.
\<close>

lemma pre_assembler_line_am_file:
  assumes "pre_assembler_line s line = Ok s1"
    and "line \<noteq> []" and "length line \<le> 81" and "CHR 0x0A \<notin> set (butlast line)"
    and "CHR 0x00 \<notin> set line"
    and "\<forall>m \<in> set (macros s). whole_lines (macro_content m)"
  shows "\<exists>e. am_file s1 = am_file s @ e \<and> (whole_lines e \<or> (e = line \<and> kept_line line))"
proof (cases "hd line = CHR '';''")
  case True
  with assms(1) have "am_file s1 = am_file s @ []" by (simp add: pre_assembler_line_def)
  then show ?thesis using whole_lines_Nil by blast
next
  case comment: False
  show ?thesis
  proof (cases "get_first_word line")
    case None
    with assms(1) comment have "am_file s1 = am_file s @ []" by (simp add: pre_assembler_line_def)
    then show ?thesis using whole_lines_Nil by blast
  next
    case (Some word)
    then have w: "word = first_word_of line" "length (first_word_of line) < 81"
      by (auto simp: get_first_word_def split: if_splits)
    show ?thesis
    proof (cases "isMacro (macros s) word \<or> word = ''macr'' \<or> (MACRO_FLAG s \<and> word \<noteq> ''endmacr'') \<or>
                  (word = ''endmacr'' \<and> isOnlyWord line)")
      case True
      with assms(1) comment Some have
        "am_file s1 = am_file s @ [] \<or>
         am_file s1 = am_file s @ word_text (getMacro (macros s) word)"
        by (auto simp: pre_assembler_line_def Let_def split: if_splits option.splits)
      then show ?thesis using whole_lines_Nil getMacro_whole_lines [OF assms(6)] by blast
    next
      case False
      with assms(1) comment Some have "am_file s1 = am_file s @ line"
        by (auto simp: pre_assembler_line_def Let_def split: if_splits option.splits)
      moreover from False comment w assms(2-5) have "kept_line line"
        by (auto simp: kept_line_def)
      ultimately show ?thesis by blast
    qed
  qed
qed

lemma pre_assembler_line_macros:
  assumes "pre_assembler_line s line = Ok s1"
    and "line \<noteq> []" and "length line \<le> 81" and "CHR 0x0A \<notin> set (butlast line)"
    and "CHR 0x00 \<notin> set line" and "last line = CHR 0x0A"
    and "\<forall>m \<in> set (macros s). whole_lines (macro_content m)"
  shows "\<forall>m \<in> set (macros s1). whole_lines (macro_content m)"
proof (cases "hd line = CHR '';''")
  case True
  with assms(1,7) show ?thesis by (auto simp: pre_assembler_line_def)
next
  case comment: False
  show ?thesis
  proof (cases "get_first_word line")
    case None
    with assms(1,7) comment show ?thesis by (auto simp: pre_assembler_line_def)
  next
    case (Some word)
    then have w: "word = first_word_of line" "length (first_word_of line) < 81"
      by (auto simp: get_first_word_def split: if_splits)
    show ?thesis
    proof (cases "\<not> isMacro (macros s) word \<and> word \<noteq> ''macr'' \<and> MACRO_FLAG s \<and> word \<noteq> ''endmacr''")
      case True
      with comment w assms(2-5) have "kept_line line" by (auto simp: kept_line_def)
      then have l: "whole_lines line" using assms(6) by (rule whole_lines_line)
      from assms(1) comment Some True obtain name hptr' where
        "addMacroContent (macros s) line name = Some hptr'" and "macros s1 = hptr'"
        by (auto simp: pre_assembler_line_def Let_def split: if_splits option.splits)
      with addMacroContent_whole_lines [OF _ assms(7) l] show ?thesis by blast
    next
      case False
      with assms(1) comment Some have
        "macros s1 = macros s \<or> macros s1 = addMacro (macros s) (get_second_word line)"
        by (auto simp: pre_assembler_line_def Let_def split: if_splits option.splits)
      with assms(7) show ?thesis by (auto simp: addMacro_def whole_lines_Nil)
    qed
  qed
qed

text \<open>The loop: the \<open>.am\<close> file it leaves is made of lines the pass keeps.\<close>

lemma pre_assembler_loop_kept_lines:
  "pre_assembler_loop s fp = Ok s' \<Longrightarrow> CHR 0x00 \<notin> set fp \<Longrightarrow> whole_lines (am_file s) \<Longrightarrow>
   \<forall>m \<in> set (macros s). whole_lines (macro_content m) \<Longrightarrow>
   \<exists>ls. am_file s' = concat ls \<and> kept_lines ls"
proof (induction s fp arbitrary: s' rule: pre_assembler_loop.induct)
  case (1 s fp)
  show ?case
  proof (cases "fgets 83 fp")
    case None
    with "1.prems"(1) have "s' = s" by (subst (asm) pre_assembler_loop.simps) simp
    with whole_lines_kept_lines [OF "1.prems"(3), of "[]"] show ?thesis by simp
  next
    case (Some x)
    obtain line rest where x: "x = (line, rest)" by (cases x)
    with Some have f: "fgets 83 fp = Some (line, rest)" by simp
    note r = fgets_83_reads [OF f]
    from r(1) "1.prems"(2) have nul: "CHR 0x00 \<notin> set line" "CHR 0x00 \<notin> set rest" by auto
    show ?thesis
    proof (cases "length line = 82")
      case True
      let ?s = "s\<lparr>error0Count := error0Count s + 1\<rparr>"
      let ?fp = "drop 1 (dropWhile (\<lambda>c. c \<noteq> CHR 0x0A) rest)"
      from "1.prems"(1) f True have run: "pre_assembler_loop ?s ?fp = Ok s'"
        by (subst (asm) pre_assembler_loop.simps) simp
      have "set ?fp \<subseteq> set rest"
        by (meson set_drop_subset set_dropWhileD subsetI subset_trans in_mono)
      with nul have n: "CHR 0x00 \<notin> set ?fp" by auto
      from "1.IH"(1) [OF Some x [symmetric] True run n] "1.prems"(3,4) show ?thesis by simp
    next
      case False
      with r(3) have len: "length line \<le> 81" by simp
      from "1.prems"(1) f False obtain s1 where
        step: "pre_assembler_line s line = Ok s1" and run: "pre_assembler_loop s1 rest = Ok s'"
        by (subst (asm) pre_assembler_loop.simps) (auto split: result.splits)
      from pre_assembler_line_am_file [OF step r(2) len r(4) nul(1) "1.prems"(4)]
      obtain e where e: "am_file s1 = am_file s @ e"
        "whole_lines e \<or> (e = line \<and> kept_line line)" by blast
      show ?thesis
      proof (cases "last line = CHR 0x0A")
        case True
        from e True have "whole_lines e" by (auto intro: whole_lines_line)
        with e(1) "1.prems"(3) have a: "whole_lines (am_file s1)" by (simp add: whole_lines_append)
        from pre_assembler_line_macros [OF step r(2) len r(4) nul(1) True "1.prems"(4)]
        have m: "\<forall>m \<in> set (macros s1). whole_lines (macro_content m)" .
        from "1.IH"(2) [OF Some x [symmetric] False step run nul(2) a m] show ?thesis .
      next
        case partial: False
        with r(5) False have "rest = []" by simp
        with run have "s' = s1" by (subst (asm) pre_assembler_loop.simps) (simp add: fgets_def)
        moreover from e(2) have "whole_lines e \<or> e = [] \<or> kept_line e" by auto
        then have "\<exists>ls. am_file s @ e = concat ls \<and> kept_lines ls"
        proof (elim disjE)
          assume "whole_lines e"
          with "1.prems"(3) have "whole_lines (am_file s @ e)" by (rule whole_lines_append)
          from whole_lines_kept_lines [OF this, of "[]"] show ?thesis by simp
        next
          assume "e = []"
          with whole_lines_kept_lines [OF "1.prems"(3), of "[]"] show ?thesis by simp
        next
          assume "kept_line e"
          with whole_lines_kept_lines [OF "1.prems"(3), of e] show ?thesis by simp
        qed
        ultimately show ?thesis using e(1) by simp
      qed
    qed
  qed
qed

text \<open>
  The pass with an empty macro table, outside a macro definition, on lines it keeps: each
  line is written as it is.
\<close>

lemma pre_assembler_line_kept_line:
  assumes "kept_line l" and "macros s = []" and "\<not> MACRO_FLAG s"
  shows "pre_assembler_line s l = Ok (s\<lparr>am_file := am_file s @ l\<rparr>)"
  using assms by (auto simp: pre_assembler_line_def kept_line_def get_first_word_def)

lemma pre_assembler_loop_identity:
  "kept_lines ls \<Longrightarrow> macros s = [] \<Longrightarrow> \<not> MACRO_FLAG s \<Longrightarrow>
   pre_assembler_loop s (concat ls) = Ok (s\<lparr>am_file := am_file s @ concat ls\<rparr>)"
proof (induction ls arbitrary: s)
  case Nil
  then show ?case by (simp add: pre_assembler_loop.simps fgets_def)
next
  case (Cons l ls)
  from Cons.prems(1) have l: "kept_line l" and c: "last l = CHR 0x0A \<or> concat ls = []"
    and ls: "kept_lines ls"
    by (auto simp: kept_lines_def split: if_splits)
  from l have len: "length l \<noteq> 82" by (simp add: kept_line_def)
  let ?s = "s\<lparr>am_file := am_file s @ l\<rparr>"
  have "pre_assembler_loop s (concat (l # ls)) = pre_assembler_loop ?s (concat ls)"
    using fgets_83_kept_line [OF l c] len pre_assembler_line_kept_line [OF l Cons.prems(2,3)]
    by (subst pre_assembler_loop.simps) simp
  also have "\<dots> = Ok (?s\<lparr>am_file := am_file ?s @ concat ls\<rparr>)"
    using ls Cons.prems(2,3) by (intro Cons.IH) simp_all
  finally show ?case by simp
qed

lemma kept_lines_no_NUL: "kept_lines ls \<Longrightarrow> CHR 0x00 \<notin> set (concat ls)"
  by (auto simp: kept_lines_def kept_line_def list_all_iff)

text \<open>
  C9.  The macro pass is idempotent on its own output: when the pass (started with an empty
  macro table, as \<open>main\<close> starts it) succeeds on a source text without NUL characters
  and writes the text \<open>y\<close>, the pass on \<open>y\<close> succeeds, defines no macro and writes
  \<open>y\<close> again, byte for byte; and \<open>y\<close> has no NUL character either.
\<close>

theorem C9_macro_pass_idempotent:
  assumes "CHR 0x00 \<notin> set x" and "pre_assembler [] x = Ok (t, y)"
  shows "pre_assembler [] y = Ok ([], y) \<and> CHR 0x00 \<notin> set y"
proof -
  let ?s = "\<lparr>macros = [], MACRO_FLAG = False, MACRO_NAME = None, error0Count = 0, am_file = []\<rparr>"
  from assms(2) obtain s' where run: "pre_assembler_loop ?s x = Ok s'" and y: "y = am_file s'"
    by (auto simp: pre_assembler_def split: result.splits if_splits)
  from pre_assembler_loop_kept_lines [OF run assms(1)] obtain ls where
    ls: "am_file s' = concat ls" "kept_lines ls"
    by (auto simp: whole_lines_Nil)
  from pre_assembler_loop_identity [OF ls(2), of ?s]
  have "pre_assembler [] (concat ls) = Ok ([], concat ls)"
    by (simp add: pre_assembler_def)
  with y ls kept_lines_no_NUL [OF ls(2)] show ?thesis by simp
qed

theorem C9_macro_pass_idempotent_witness:
  "CHR 0x00 \<notin> set ''macr M\<newline>mov r1, r2\<newline>endmacr\<newline>; twice\<newline>M\<newline>M\<newline>stop'' \<and>
   pre_assembler [] ''macr M\<newline>mov r1, r2\<newline>endmacr\<newline>; twice\<newline>M\<newline>M\<newline>stop'' =
     Ok ([\<lparr>macro_name = ''M'', macro_content = ''mov r1, r2\<newline>''\<rparr>],
         ''mov r1, r2\<newline>mov r1, r2\<newline>stop'') \<and>
   pre_assembler [] ''mov r1, r2\<newline>mov r1, r2\<newline>stop'' =
     Ok ([], ''mov r1, r2\<newline>mov r1, r2\<newline>stop'')"
proof -
  have a: "pre_assembler [] ''macr M\<newline>mov r1, r2\<newline>endmacr\<newline>; twice\<newline>M\<newline>M\<newline>stop'' =
     Ok ([\<lparr>macro_name = ''M'', macro_content = ''mov r1, r2\<newline>''\<rparr>],
         ''mov r1, r2\<newline>mov r1, r2\<newline>stop'')"
    by code_simp
  have b: "CHR 0x00 \<notin> set ''macr M\<newline>mov r1, r2\<newline>endmacr\<newline>; twice\<newline>M\<newline>M\<newline>stop''"
    by simp
  from C9_macro_pass_idempotent [OF b a] a b show ?thesis by simp
qed

section \<open>The size limit\<close>

text \<open>
  A source file of \<open>n\<close> lines \<open>stop\<close>.  Each line is one word of code, so the
  first stage adds 1 to \<open>IC\<close> for each and the second stage has nothing to fill in.
\<close>

lemma fgets_stop: "fgets LINE_SIZE (''stop\<newline>'' @ rest) = Some (''stop\<newline>'', rest)"
  using fgets_chars_line [of "''stop''" 80 rest] by (simp add: fgets_def LINE_SIZE_def)

lemma read_lines_stop:
  "read_lines (concat (replicate n ''stop\<newline>'') @ rest) = replicate n ''stop\<newline>'' @ read_lines rest"
proof (induction n)
  case 0
  show ?case by simp
next
  case (Suc n)
  have "read_lines (''stop\<newline>'' @ (concat (replicate n ''stop\<newline>'') @ rest)) =
          ''stop\<newline>'' # read_lines (concat (replicate n ''stop\<newline>'') @ rest)"
    by (subst read_lines.simps) (simp only: fgets_stop option.case prod.case)
  with Suc show ?case by simp
qed

lemma stop_parts:
  "isLabel [] ''stop\<newline>'' = 0"
  "findDataOrStringWord ''stop\<newline>'' = None"
  "findEntryOrExternWord ''stop\<newline>'' = None"
  "get_first_word ''stop\<newline>'' = Some ''stop''"
  "clearOfMacro [] ''stop\<newline>'' = 1"
  "validInstructionName ''stop''"
  "isAddressType2Or3 [] [] ''stop\<newline>'' = False"
  "addSpacesAfterCommas ''stop\<newline>'' = ''stop\<newline>''"
  "replaceCommas ''stop\<newline>'' = (1, ''stop\<newline>'')"
  "first_word_of ''stop\<newline>'' = ''stop''"
  "countWords (skipFirstWord ''stop\<newline>'') = 0"
  "find_opcode instructionType_table ''stop'' 0 0 = Ok 15"
  by code_simp+

lemma stop_encodeInstruction:
  "encodeInstruction [] hptr ''stop\<newline>'' False IC = (Ok 1, hptr @ [\<lparr>cell = 30724, address = IC\<rparr>])"
  by (simp add: encodeInstruction_def stop_parts addInstruction_def assignNodeToList_def)

lemma stop_line:
  "labels s = [] \<Longrightarrow>
   first_stage_line [] s ''stop\<newline>'' =
     Ok (s\<lparr>instruction_image := instruction_image s @ [\<lparr>cell = 30724, address = IC_count s\<rparr>],
           IC_count := IC_count s + 1\<rparr>)"
  by (simp add: first_stage_line_def stop_parts first_stage_instruction_def
        first_stage_encode_def stop_encodeInstruction)

lemma stop_loop:
  "labels s = [] \<Longrightarrow> DC_count s = 0 \<Longrightarrow> IC_count s + int n \<le> 4097 \<Longrightarrow>
   first_stage_loop [] s (replicate n ''stop\<newline>'' @ ls) =
   first_stage_loop []
     (s\<lparr>instruction_image :=
           instruction_image s @ map (\<lambda>i. \<lparr>cell = 30724, address = IC_count s + int i\<rparr>) [0..<n],
         IC_count := IC_count s + int n\<rparr>) ls"
proof (induction n arbitrary: s)
  case 0
  then show ?case by simp
next
  case (Suc n)
  let ?s = "s\<lparr>instruction_image := instruction_image s @ [\<lparr>cell = 30724, address = IC_count s\<rparr>],
           IC_count := IC_count s + 1\<rparr>"
  from Suc.prems have "\<not> IC_count s + DC_count s > MEMORY_SIZE" by (simp add: MEMORY_SIZE_def)
  then have step1: "first_stage_loop [] s (replicate (Suc n) ''stop\<newline>'' @ ls) =
        first_stage_loop [] ?s (replicate n ''stop\<newline>'' @ ls)"
    using stop_line [OF Suc.prems(1)] by simp
  have step2: "first_stage_loop [] ?s (replicate n ''stop\<newline>'' @ ls) = first_stage_loop []
     (?s\<lparr>instruction_image :=
           instruction_image ?s @ map (\<lambda>i. \<lparr>cell = 30724, address = IC_count ?s + int i\<rparr>) [0..<n],
         IC_count := IC_count ?s + int n\<rparr>) ls"
    using Suc.prems by (intro Suc.IH) simp_all
  have st: "?s\<lparr>instruction_image :=
           instruction_image ?s @ map (\<lambda>i. \<lparr>cell = 30724, address = IC_count ?s + int i\<rparr>) [0..<n],
         IC_count := IC_count ?s + int n\<rparr> =
     s\<lparr>instruction_image :=
           instruction_image s @ map (\<lambda>i. \<lparr>cell = 30724, address = IC_count s + int i\<rparr>) [0..<Suc n],
         IC_count := IC_count s + int (Suc n)\<rparr>"
    by (simp add: map_upt_Suc ac_simps del: upt_Suc)
  show ?case by (simp only: step1 step2 st)
qed


lemma stop_second_parts:
  "skipFirstWord ''stop\<newline>'' = [] \<or> hd (skipFirstWord ''stop\<newline>'') = CHR 0x0A"
  "1 + findNumOfWords (skipFirstWord ''stop\<newline>'') = 1"
  by code_simp+

lemma stop_encodeMissingOperand:
  "encodeMissingOperand [] hptr ''stop\<newline>'' False IC = (Ok 1, hptr, ''stop\<newline>'')"
  using stop_second_parts by (simp add: encodeMissingOperand_def stop_parts Let_def)

lemma stop_second_line:
  "labels s = [] \<Longrightarrow> second_stage_line [] s ''stop\<newline>'' = Ok (s\<lparr>IC_count := IC_count s + 1\<rparr>)"
  by (simp add: second_stage_line_def stop_parts stop_encodeMissingOperand)

lemma stop_second_loop:
  "labels s = [] \<Longrightarrow>
   second_stage_loop [] s (replicate n ''stop\<newline>'') = Ok (s\<lparr>IC_count := IC_count s + int n\<rparr>)"
proof (induction n arbitrary: s)
  case 0
  then show ?case by simp
next
  case (Suc n)
  have "second_stage_loop [] s (replicate (Suc n) ''stop\<newline>'') =
        second_stage_loop [] (s\<lparr>IC_count := IC_count s + 1\<rparr>) (replicate n ''stop\<newline>'')"
    using stop_second_line [OF Suc.prems] by simp
  also have "\<dots> = Ok (s\<lparr>IC_count := IC_count s + 1\<rparr>\<lparr>IC_count := IC_count (s\<lparr>IC_count := IC_count s + 1\<rparr>) + int n\<rparr>)"
    using Suc.prems by (intro Suc.IH) simp
  also have "\<dots> = Ok (s\<lparr>IC_count := IC_count s + int (Suc n)\<rparr>)"
    by (simp add: ac_simps)
  finally show ?case .
qed

lemma stop_pre_assembler:
  "pre_assembler [] (concat (replicate n ''stop\<newline>'')) = Ok ([], concat (replicate n ''stop\<newline>''))"
proof -
  have "kept_line ''stop\<newline>''" by code_simp
  then have "kept_lines (replicate n ''stop\<newline>'')"
    by (auto simp: kept_lines_def list_all_iff dest!: in_set_butlastD)
  then show ?thesis
    using pre_assembler_loop_identity
      [of "replicate n ''stop\<newline>''"
          "\<lparr>macros = [], MACRO_FLAG = False, MACRO_NAME = None, error0Count = 0, am_file = []\<rparr>"]
    by (simp add: pre_assembler_def)
qed

lemma stop_read_lines:
  "read_lines (concat (replicate n ''stop\<newline>'')) = replicate n ''stop\<newline>''"
  using read_lines_stop [of n "[]"] by (simp add: read_lines.simps [of "[]"] fgets_def)


text \<open>
  The instruction image of such a file with more than 3996 lines does not fit the memory
  from address 100 on: \<open>loadPCMemory\<close> stores the word of offset 3996 at
  \<open>memory_image[4096]\<close>.
\<close>

lemma load_instructions_overflow:
  "k \<le> 3996 \<Longrightarrow> 3996 < n \<Longrightarrow>
   load_instructions Instruction_hptr (map (\<lambda>i. \<lparr>cell = c, address = int i\<rparr>) [k..<n]) (int k)
     memory_image = Undefined_behaviour"
proof (induction "3996 - k" arbitrary: k memory_image)
  case 0
  then have k: "k = 3996" by simp
  with 0 have "[k..<n] = k # [Suc k..<n]" by (simp add: upt_conv_Cons)
  then show ?case using k by (simp add: MEMORY_SIZE_def)
next
  case (Suc d)
  then have k: "k < 3996" by simp
  with Suc.prems have u: "[k..<n] = k # [Suc k..<n]" by (simp add: upt_conv_Cons)
  from Suc(2) have d: "d = 3996 - Suc k" by simp
  from k have le: "Suc k \<le> 3996" by simp
  have s: "int (Suc k) = int k + 1" by simp
  have ih: "load_instructions Instruction_hptr (map (\<lambda>i. \<lparr>cell = c, address = int i\<rparr>) [Suc k..<n])
          (int k + 1) m' = Undefined_behaviour" for m'
    using Suc(1) [OF d le Suc.prems(2), of m'] unfolding s .
  show ?case using k ih unfolding u by (simp add: MEMORY_SIZE_def)
qed

lemma stop_loadPCMemory:
  "loadPCMemory (map (\<lambda>i. \<lparr>cell = 30724, address = int i\<rparr>) [0..<4097]) [] (\<lambda>i. 0) =
     Undefined_behaviour"
  using load_instructions_overflow [of 0 4097 _ 30724]
  by (simp add: loadPCMemory_def)

text \<open>
  C4.  The test \<open>IC + DC > MEMORY_SIZE\<close> is the first statement of the body of the
  loop \<open>while (fgets(...))\<close> of \<open>first_stage\<close>: it sees the counters as the lines
  before the current one left them, and nothing tests them after the last line.  With
  4097 lines \<open>stop\<close> the first stage ends without an error and with
  \<open>IC + DC = 4097\<close>, which is more than \<open>MEMORY_SIZE\<close>; the second stage counts no
  error either and goes on to \<open>createOutput\<close> with an image of 4097 words, where
  \<open>loadPCMemory\<close> stores beyond the 4096 cells of \<open>memory_image\<close>.  So the assembly of
  this file does not end with the error of the size limit.  With one more line the test
  sees \<open>IC = 4097\<close> and the assembly of the file fails.
\<close>

theorem C4_last_line_overflow:
  "first_stage [] (concat (replicate 4097 ''stop\<newline>'')) =
     Ok \<lparr>err_count = 0, IC_count = 4097, DC_count = 0, labels = [], data_image = [],
         instruction_image = map (\<lambda>i. \<lparr>cell = 30724, address = int i\<rparr>) [0..<4097]\<rparr> \<and>
   4097 > MEMORY_SIZE \<and>
   second_stage_loop []
     \<lparr>err_count = 0, IC_count = 0, DC_count = 0, labels = [], data_image = [],
       instruction_image = map (\<lambda>i. \<lparr>cell = 30724, address = int i\<rparr>) [0..<4097]\<rparr>
     (read_lines (concat (replicate 4097 ''stop\<newline>''))) =
     Ok \<lparr>err_count = 0, IC_count = 4097, DC_count = 0, labels = [], data_image = [],
         instruction_image = map (\<lambda>i. \<lparr>cell = 30724, address = int i\<rparr>) [0..<4097]\<rparr> \<and>
   loadPCMemory (map (\<lambda>i. \<lparr>cell = 30724, address = int i\<rparr>) [0..<4097]) [] (\<lambda>i. 0) =
     Undefined_behaviour \<and>
   assemble (concat (replicate 4097 ''stop\<newline>'')) = Undefined_behaviour \<and>
   assemble (concat (replicate 4098 ''stop\<newline>'')) = Regular_error"
proof -
  let ?img = "map (\<lambda>i. \<lparr>cell = 30724, address = int i\<rparr>) [0..<4097]"
  let ?s = "\<lparr>err_count = 0, IC_count = 4097, DC_count = 0, labels = [], data_image = [],
         instruction_image = ?img\<rparr>"
  let ?z = "\<lparr>err_count = 0, IC_count = 0, DC_count = 0, labels = [], data_image = [],
         instruction_image = ?img\<rparr>"
  have a: "first_stage_loop [] initial_stage (replicate 4097 ''stop\<newline>'') = Ok ?s"
    using stop_loop [of initial_stage 4097 "[]"] by (simp add: initial_stage_def)
  have "replicate 4098 ''stop\<newline>'' = replicate 4097 ''stop\<newline>'' @ [''stop\<newline>'']"
    using replicate_add [of 4097 1 "''stop\<newline>''"] by simp
  then have b: "first_stage_loop [] initial_stage (replicate 4098 ''stop\<newline>'') =
     Ok (?s\<lparr>err_count := 1\<rparr>)"
    using stop_loop [of initial_stage 4097 "[''stop\<newline>'']"]
    by (simp add: initial_stage_def MEMORY_SIZE_def)
  have f: "first_stage [] (concat (replicate 4097 ''stop\<newline>'')) = Ok ?s"
    by (simp add: first_stage_def stop_read_lines a)
  have g: "first_stage [] (concat (replicate 4098 ''stop\<newline>'')) = Regular_error"
    by (simp add: first_stage_def stop_read_lines b)
  have "second_stage_loop [] ?z (replicate 4097 ''stop\<newline>'') =
        Ok (?z\<lparr>IC_count := IC_count ?z + int 4097\<rparr>)"
    by (rule stop_second_loop) simp
  then have l: "second_stage_loop [] ?z (replicate 4097 ''stop\<newline>'') = Ok ?s" by simp
  have h: "second_stage [] ?s (concat (replicate 4097 ''stop\<newline>'')) = Undefined_behaviour"
    by (simp add: second_stage_def stop_read_lines l createOutput_def stop_loadPCMemory)
  have i: "assemble (concat (replicate 4097 ''stop\<newline>'')) = Undefined_behaviour"
    by (simp only: assemble_def stop_pre_assembler f h result.case prod.case)
  have j: "assemble (concat (replicate 4098 ''stop\<newline>'')) = Regular_error"
    by (simp only: assemble_def stop_pre_assembler g result.case prod.case)
  from f l i j show ?thesis by (simp add: MEMORY_SIZE_def stop_read_lines stop_loadPCMemory)
qed

end
